theory Spec2Isabelle
  imports Main
begin

section \<open>JavaScript values and errors\<close>

text \<open>
  The values the script handles: whatever \<^verbatim>\<open>JSON.parse\<close> returns, and \<^verbatim>\<open>undefined\<close>
  (the result of reading a property nobody has). Numbers are kept abstract: the script never
  computes with them, it only stores them and turns them into text. An object is the list of
  its own properties; \<^verbatim>\<open>JSON.parse\<close> yields objects whose keys are unique.
  Strings are lists of code units below 256.
\<close>

datatype 'n jsval =
    JUndefined
  | JNull
  | JBool bool
  | JNum 'n
  | JStr string
  | JArr "'n jsval list"
  | JObj "(string \<times> 'n jsval) list"

text \<open>
  The exceptions that can be thrown: \<^verbatim>\<open>new Error(message)\<close> (by the script, or by the host's
  record store), and the \<^verbatim>\<open>TypeError\<close>s of the language itself. The wording of a
  \<^verbatim>\<open>TypeError\<close> is the engine's, so only its cause is recorded.
\<close>

datatype type_error =
    NullRead string         \<comment> \<open>reading the named property of \<^verbatim>\<open>null\<close> or \<^verbatim>\<open>undefined\<close>\<close>
  | NotAFunction string     \<comment> \<open>calling the named property, which is not callable\<close>
  | NoPrimitive             \<comment> \<open>an object that cannot be converted to a string\<close>

datatype error = Error string | TypeError type_error

section \<open>The host: record store, chat, log, engine\<close>

record 'n obj =
  kind :: string
  oid :: string
  props :: "(string \<times> 'n jsval) list"

record msg =
  msg_type :: string
  content :: string
  playerid :: string

text \<open>
  What the sandbox provides and the script does not define: \<^verbatim>\<open>JSON.parse\<close> (\<open>Inl\<close> carries
  the message of its \<^verbatim>\<open>SyntaxError\<close>), the text of a number, the text of
  \<^verbatim>\<open>Math.random().toString(36)\<close> at the k-th draw, the engine's wording of a
  \<^verbatim>\<open>TypeError\<close>, the identifier given to the k-th record of the store, and whether the
  store refuses a write (\<open>Some\<close> carries the message of the exception).
\<close>

record 'n host =
  json_parse :: "string \<Rightarrow> string + 'n jsval"
  number_text :: "'n \<Rightarrow> string"
  random_text :: "nat \<Rightarrow> string"
  type_error_text :: "type_error \<Rightarrow> string"
  object_id :: "nat \<Rightarrow> string"
  store_refuses :: "'n obj list \<Rightarrow> string \<Rightarrow> (string \<times> 'n jsval) list \<Rightarrow> string option"

text \<open>
  The state the handler acts on: the records created so far, the chat messages sent
  (speaker and text), the log lines written, and the number of random draws made.
\<close>

record 'n world =
  objs :: "'n obj list"
  chat :: "(string \<times> string) list"
  logs :: "string list"
  draws :: nat

type_synonym ('n, 'a) exec = "'n world \<Rightarrow> (error + 'a) \<times> 'n world"

definition ret :: "'a \<Rightarrow> ('n, 'a) exec" where
  "ret a = (\<lambda>s. (Inr a, s))"

definition throw :: "error \<Rightarrow> ('n, 'a) exec" where
  "throw e = (\<lambda>s. (Inl e, s))"

definition lift :: "error + 'a \<Rightarrow> ('n, 'a) exec" where
  "lift r = (\<lambda>s. (r, s))"

definition bind :: "('n, 'a) exec \<Rightarrow> ('a \<Rightarrow> ('n, 'b) exec) \<Rightarrow> ('n, 'b) exec" where
  "bind m f = (\<lambda>s. case m s of (Inl e, s') \<Rightarrow> (Inl e, s') | (Inr a, s') \<Rightarrow> f a s')"

definition error_message :: "'n host \<Rightarrow> error \<Rightarrow> string" where
  "error_message h e = (case e of Error m \<Rightarrow> m | TypeError t \<Rightarrow> type_error_text h t)"

definition createObj ::
  "'n host \<Rightarrow> string \<Rightarrow> (string \<times> 'n jsval) list \<Rightarrow> ('n, 'n obj) exec" where
  "createObj h k ps = (\<lambda>s.
     case store_refuses h (objs s) k ps of
       Some m \<Rightarrow> (Inl (Error m), s)
     | None \<Rightarrow>
         (let ob = \<lparr>kind = k, oid = object_id h (length (objs s)), props = ps\<rparr>
          in (Inr ob, s\<lparr>objs := objs s @ [ob]\<rparr>)))"

definition sendChat :: "string \<Rightarrow> string \<Rightarrow> ('n, unit) exec" where
  "sendChat speaker text = (\<lambda>s. (Inr (), s\<lparr>chat := chat s @ [(speaker, text)]\<rparr>))"

definition log :: "string \<Rightarrow> ('n, unit) exec" where
  "log text = (\<lambda>s. (Inr (), s\<lparr>logs := logs s @ [text]\<rparr>))"

section \<open>The parts of the language the script uses\<close>

definition startsWith :: "string \<Rightarrow> string \<Rightarrow> bool" where
  "startsWith s p = (take (length p) s = p)"

text \<open>\<^verbatim>\<open>s.replace(p, r)\<close> with a string pattern: the first occurrence only.\<close>

fun replace_first :: "string \<Rightarrow> string \<Rightarrow> string \<Rightarrow> string" where
  "replace_first p r [] = (if p = [] then r else [])"
| "replace_first p r (c # cs) =
     (if take (length p) (c # cs) = p then r @ drop (length p) (c # cs)
      else c # replace_first p r cs)"

definition is_space :: "char \<Rightarrow> bool" where
  "is_space c = (c \<in> {CHR 0x09, CHR 0x0A, CHR 0x0B, CHR 0x0C, CHR 0x0D, CHR 0x20, CHR 0xA0})"

definition trim :: "string \<Rightarrow> string" where
  "trim s = rev (dropWhile is_space (rev (dropWhile is_space s)))"

definition substring :: "nat \<Rightarrow> nat \<Rightarrow> string \<Rightarrow> string" where
  "substring a b s = take (max a b - min a b) (drop (min a b) s)"

definition nl :: char where
  "nl = CHR 0x0A"

fun digit :: "nat \<Rightarrow> char" where
  "digit n = ''0123456789'' ! (n mod 10)"

fun dec :: "nat \<Rightarrow> string" where
  "dec n = (if n < 10 then [digit n] else dec (n div 10) @ [digit n])"

declare dec.simps [simp del]

text \<open>
  Conversion to a string, as a template literal and \<^verbatim>\<open>join\<close> perform it. An array is its
  elements joined by commas, \<^verbatim>\<open>null\<close> and \<^verbatim>\<open>undefined\<close> elements giving the empty string.
  An object prints as \<^verbatim>\<open>[object Object]\<close>, unless it has an own property \<^verbatim>\<open>toString\<close>:
  a parsed value is never callable, and then neither \<^verbatim>\<open>toString\<close> nor \<^verbatim>\<open>valueOf\<close>
  yields a primitive.
\<close>

fun to_string :: "('n \<Rightarrow> string) \<Rightarrow> 'n jsval \<Rightarrow> error + string"
  and join_elems :: "('n \<Rightarrow> string) \<Rightarrow> string \<Rightarrow> 'n jsval list \<Rightarrow> error + string"
where
  "to_string nt JUndefined = Inr ''undefined''"
| "to_string nt JNull = Inr ''null''"
| "to_string nt (JBool b) = Inr (if b then ''true'' else ''false'')"
| "to_string nt (JNum n) = Inr (nt n)"
| "to_string nt (JStr s) = Inr s"
| "to_string nt (JArr xs) = join_elems nt '','' xs"
| "to_string nt (JObj kvs) =
     (if ''toString'' \<in> set (map fst kvs) then Inl (TypeError NoPrimitive)
      else Inr ''[object Object]'')"
| "join_elems nt sep [] = Inr ''''"
| "join_elems nt sep (x # xs) =
     (case (if x = JUndefined \<or> x = JNull then Inr '''' else to_string nt x) of
        Inl e \<Rightarrow> Inl e
      | Inr t \<Rightarrow>
          (if xs = [] then Inr t
           else case join_elems nt sep xs of
                  Inl e \<Rightarrow> Inl e
                | Inr r \<Rightarrow> Inr (t @ sep @ r)))"

text \<open>
  Reading a property the prototypes do not provide (every key the script reads is one:
  the required fields, \<^verbatim>\<open>name\<close>, \<^verbatim>\<open>description\<close>).
\<close>

fun get_prop :: "'n jsval \<Rightarrow> string \<Rightarrow> error + 'n jsval" where
  "get_prop JUndefined k = Inl (TypeError (NullRead k))"
| "get_prop JNull k = Inl (TypeError (NullRead k))"
| "get_prop (JObj kvs) k = Inr (case map_of kvs k of Some v \<Rightarrow> v | None \<Rightarrow> JUndefined)"
| "get_prop v k = Inr JUndefined"

text \<open>
  The own properties of a value: the keys of an object, the indices and \<^verbatim>\<open>length\<close> of an
  array or a string. \<^verbatim>\<open>data.hasOwnProperty(field)\<close> looks the method up on the value
  first: an own property of that name shadows the inherited method and is not callable.
\<close>

fun own_property :: "'n jsval \<Rightarrow> string \<Rightarrow> bool" where
  "own_property (JObj kvs) f = (f \<in> set (map fst kvs))"
| "own_property (JArr xs) f = (f = ''length'' \<or> f \<in> set (map dec [0..<length xs]))"
| "own_property (JStr s) f = (f = ''length'' \<or> f \<in> set (map dec [0..<length s]))"
| "own_property v f = False"

fun call_hasOwnProperty :: "'n jsval \<Rightarrow> string \<Rightarrow> error + bool" where
  "call_hasOwnProperty JUndefined f = Inl (TypeError (NullRead ''hasOwnProperty''))"
| "call_hasOwnProperty JNull f = Inl (TypeError (NullRead ''hasOwnProperty''))"
| "call_hasOwnProperty (JObj kvs) f =
     (if ''hasOwnProperty'' \<in> set (map fst kvs) then Inl (TypeError (NotAFunction ''hasOwnProperty''))
      else Inr (own_property (JObj kvs) f))"
| "call_hasOwnProperty v f = Inr (own_property v f)"

text \<open>\<^verbatim>\<open>xs.every(p)\<close>: stops at the first element that fails; an exception of \<open>p\<close> escapes.\<close>

fun every :: "('a \<Rightarrow> error + bool) \<Rightarrow> 'a list \<Rightarrow> error + bool" where
  "every p [] = Inr True"
| "every p (x # xs) =
     (case p x of Inl e \<Rightarrow> Inl e | Inr b \<Rightarrow> (if b then every p xs else Inr False))"

fun read_all :: "'n jsval \<Rightarrow> string list \<Rightarrow> error + (string \<times> 'n jsval) list" where
  "read_all d [] = Inr []"
| "read_all d (k # ks) =
     (case get_prop d k of
        Inl e \<Rightarrow> Inl e
      | Inr v \<Rightarrow> (case read_all d ks of Inl e \<Rightarrow> Inl e | Inr r \<Rightarrow> Inr ((k, v) # r)))"

fun for_each :: "('a \<Rightarrow> ('n, unit) exec) \<Rightarrow> 'a list \<Rightarrow> ('n, unit) exec" where
  "for_each f [] = ret ()"
| "for_each f (x # xs) = bind (f x) (\<lambda>_. for_each f xs)"

fun call_forEach :: "'n jsval \<Rightarrow> ('n jsval \<Rightarrow> ('n, unit) exec) \<Rightarrow> ('n, unit) exec" where
  "call_forEach (JArr xs) f = for_each f xs"
| "call_forEach JUndefined f = throw (TypeError (NullRead ''forEach''))"
| "call_forEach JNull f = throw (TypeError (NullRead ''forEach''))"
| "call_forEach v f = throw (TypeError (NotAFunction ''forEach''))"

fun call_join :: "('n \<Rightarrow> string) \<Rightarrow> 'n jsval \<Rightarrow> string \<Rightarrow> error + string" where
  "call_join nt (JArr xs) sep = join_elems nt sep xs"
| "call_join nt JUndefined sep = Inl (TypeError (NullRead ''join''))"
| "call_join nt JNull sep = Inl (TypeError (NullRead ''join''))"
| "call_join nt v sep = Inl (TypeError (NotAFunction ''join''))"

section \<open>The script\<close>

definition extractNPCData :: "'n host \<Rightarrow> string \<Rightarrow> error + 'n jsval" where
  "extractNPCData h c =
     (let jsonStr = trim (replace_first ''!create-npc'' '''' c)
      in case json_parse h jsonStr of
           Inl m \<Rightarrow> Inl (Error (''Invalid JSON format. Please check your input. Error: '' @ m))
         | Inr v \<Rightarrow> Inr v)"

definition requiredFields :: "string list" where
  "requiredFields =
     [''name'', ''race'', ''class'', ''level'',
      ''strength'', ''dexterity'', ''constitution'', ''intelligence'', ''wisdom'', ''charisma'',
      ''actions'', ''background'', ''personality_traits'', ''equipment'', ''skills'',
      ''languages'', ''appearance'']"

definition validateNPCData :: "'n jsval \<Rightarrow> error + bool" where
  "validateNPCData d = every (\<lambda>field. call_hasOwnProperty d field) requiredFields"

definition generateRowID :: "'n host \<Rightarrow> ('n, string) exec" where
  "generateRowID h = (\<lambda>s. (Inr (substring 2 10 (random_text h (draws s))), s\<lparr>draws := draws s + 1\<rparr>))"

definition new_attribute ::
  "'n host \<Rightarrow> 'n obj \<Rightarrow> string \<Rightarrow> 'n jsval \<Rightarrow> ('n, unit) exec" where
  "new_attribute h character n v =
     bind (createObj h ''attribute''
             [(''name'', JStr n), (''current'', v), (''characterid'', JStr (oid character))])
          (\<lambda>_. ret ())"

definition addAttributesToCharacter :: "'n host \<Rightarrow> 'n obj \<Rightarrow> 'n jsval \<Rightarrow> ('n, unit) exec" where
  "addAttributesToCharacter h character d =
     bind (lift (read_all d [''race'', ''class'', ''level'', ''strength'', ''dexterity'',
                             ''constitution'', ''intelligence'', ''wisdom'', ''charisma''])) (\<lambda>attributes.
     bind (lift (read_all d [''equipment'', ''skills'', ''languages''])) (\<lambda>repeatingAttributes.
     bind (for_each (\<lambda>(n, current). new_attribute h character n current) attributes) (\<lambda>_.
     bind (for_each (\<lambda>(n, items).
             call_forEach items (\<lambda>item.
               bind (generateRowID h) (\<lambda>row.
               new_attribute h character (''repeating_'' @ n @ ''_'' @ row @ ''_name'') item)))
             repeatingAttributes) (\<lambda>_.
     bind (lift (get_prop d ''appearance'')) (\<lambda>appearance.
     bind (new_attribute h character ''appearance'' appearance) (\<lambda>_.
     bind (lift (get_prop d ''background'')) (\<lambda>background.
     bind (new_attribute h character ''background'' background) (\<lambda>_.
     bind (lift (get_prop d ''personality_traits'')) (\<lambda>traits.
     bind (lift (call_join (number_text h) traits '', '')) (\<lambda>joined.
     new_attribute h character ''personality_traits'' (JStr joined)))))))))))"

definition createActionsAbility :: "'n host \<Rightarrow> 'n obj \<Rightarrow> 'n jsval \<Rightarrow> ('n, unit) exec" where
  "createActionsAbility h character actions =
     call_forEach actions (\<lambda>action.
       bind (generateRowID h) (\<lambda>row1.
       bind (lift (get_prop action ''name'')) (\<lambda>n.
       bind (new_attribute h character (''repeating_npcaction_'' @ row1 @ ''_name'') n) (\<lambda>_.
       bind (generateRowID h) (\<lambda>row2.
       bind (lift (get_prop action ''description'')) (\<lambda>ds.
       new_attribute h character (''repeating_npcaction_'' @ row2 @ ''_description'') ds))))))"

definition createBackgroundAbility :: "'n host \<Rightarrow> 'n obj \<Rightarrow> 'n jsval \<Rightarrow> ('n, unit) exec" where
  "createBackgroundAbility h character d =
     bind (lift (get_prop d ''background'')) (\<lambda>background.
     bind (lift (to_string (number_text h) background)) (\<lambda>b.
     bind (lift (get_prop d ''personality_traits'')) (\<lambda>traits.
     bind (lift (to_string (number_text h) traits)) (\<lambda>t.
     bind (createObj h ''ability''
             [(''name'', JStr ''Background & Personality''),
              (''description'', JStr (''Background: '' @ b @ [nl, nl] @
                                      ''Personality Traits: '' @ t @ [nl, nl])),
              (''characterid'', JStr (oid character))])
          (\<lambda>_. ret ())))))"

text \<open>The body of the \<^verbatim>\<open>try\<close> block of \<^verbatim>\<open>handleInput\<close>.\<close>

definition try_block :: "'n host \<Rightarrow> msg \<Rightarrow> ('n, unit) exec" where
  "try_block h m =
     bind (lift (extractNPCData h (content m))) (\<lambda>npcData.
     bind (lift (validateNPCData npcData)) (\<lambda>ok.
       if \<not> ok then
         sendChat ''NPC Creator''
           ''/w gm Error: Invalid NPC data format. Please check all required fields are present.''
       else
         bind (lift (get_prop npcData ''name'')) (\<lambda>n.
         bind (createObj h ''character'' [(''name'', n), (''controlledby'', JStr (playerid m))])
           (\<lambda>character.
         bind (addAttributesToCharacter h character npcData) (\<lambda>_.
         bind (lift (get_prop npcData ''actions'')) (\<lambda>actions.
         bind (createActionsAbility h character actions) (\<lambda>_.
         bind (createBackgroundAbility h character npcData) (\<lambda>_.
         bind (lift (get_prop npcData ''name'')) (\<lambda>n'.
         bind (lift (to_string (number_text h) n')) (\<lambda>shown.
         sendChat ''NPC Creator'' (''/w gm NPC '' @ shown @ '' has been created!'')))))))))))"

definition handleInput :: "'n host \<Rightarrow> msg \<Rightarrow> ('n, unit) exec" where
  "handleInput h m = (\<lambda>s.
     if msg_type m \<noteq> ''api'' \<or> \<not> startsWith (content m) ''!create-npc'' then (Inr (), s)
     else
       (case try_block h m s of
          (Inl e, s') \<Rightarrow>
            bind (sendChat ''NPC Creator'' (''/w gm Error creating NPC: '' @ error_message h e))
                 (\<lambda>_. log (''NPC Creation Error: '' @ error_message h e)) s'
        | (Inr u, s') \<Rightarrow> (Inr u, s')))"

section \<open>Notions used to state the properties\<close>

text \<open>
  A store that takes every write. The discriminator made from the k-th random draw, and
  the discriminators of \<open>n\<close> successive draws from the k-th on.
\<close>

definition store_accepts :: "'n host \<Rightarrow> bool" where
  "store_accepts h = (\<forall>os k ps. store_refuses h os k ps = None)"

definition row_id :: "'n host \<Rightarrow> nat \<Rightarrow> string" where
  "row_id h k = substring 2 10 (random_text h k)"

definition rows :: "'n host \<Rightarrow> nat \<Rightarrow> nat \<Rightarrow> string list" where
  "rows h k n = map (row_id h) [k..<k + n]"

text \<open>
  The text of the validation error, and what makes a chat message a private one: it is
  sent as \<^verbatim>\<open>NPC Creator\<close> and begins with the whisper command to the GM.
\<close>

definition validation_error :: string where
  "validation_error =
     ''/w gm Error: Invalid NPC data format. Please check all required fields are present.''"

definition whisper :: "string \<times> string \<Rightarrow> bool" where
  "whisper c = (fst c = ''NPC Creator'' \<and> startsWith (snd c) ''/w gm '')"

text \<open>
  Reading the store: the name of a record; whether a record is an attribute of the actions
  group, or any other attribute; the names of the attribute records of repeating groups, in
  the order of the store. The names a list group and the actions group give to given
  discriminators.
\<close>

definition name_of :: "'n obj \<Rightarrow> string" where
  "name_of ob = (case map_of (props ob) ''name'' of Some (JStr n) \<Rightarrow> n | _ \<Rightarrow> [])"

definition action_name :: "(string \<times> 'n jsval) list \<Rightarrow> bool" where
  "action_name ps =
     (case map_of ps ''name'' of
        Some (JStr n) \<Rightarrow> startsWith n ''repeating_npcaction_''
      | _ \<Rightarrow> False)"

definition action_attribute :: "'n obj \<Rightarrow> bool" where
  "action_attribute ob = (kind ob = ''attribute'' \<and> action_name (props ob))"

definition plain_attribute :: "'n obj \<Rightarrow> bool" where
  "plain_attribute ob = (kind ob = ''attribute'' \<and> \<not> action_name (props ob))"

definition repeating_names :: "'n obj list \<Rightarrow> string list" where
  "repeating_names obs =
     filter (\<lambda>n. startsWith n ''repeating_'') (map name_of (filter (\<lambda>ob. kind ob = ''attribute'') obs))"

definition group_names :: "string \<Rightarrow> string list \<Rightarrow> string list" where
  "group_names g ds = map (\<lambda>row. ''repeating_'' @ g @ ''_'' @ row @ ''_name'') ds"

fun pair_names :: "string list \<Rightarrow> string list" where
  "pair_names (a # b # ds) =
     (''repeating_npcaction_'' @ a @ ''_name'') # (''repeating_npcaction_'' @ b @ ''_description'') #
     pair_names ds"
| "pair_names ds = []"

text \<open>
  The names the two records of each action get when the name records carry the
  discriminators \<open>as\<close> and the description records the discriminators \<open>bs\<close>; the
  elements of a list at even and at odd positions.
\<close>

fun evens :: "'a list \<Rightarrow> 'a list" where
  "evens (a # b # xs) = a # evens xs"
| "evens xs = []"

fun odds :: "'a list \<Rightarrow> 'a list" where
  "odds (a # b # xs) = b # odds xs"
| "odds xs = []"


section \<open>Notions used in the proofs\<close>

text \<open>
  A write request is the kind and the properties handed to \<^verbatim>\<open>createObj\<close>. \<open>stored\<close> is
  what accepted requests leave in the store, numbered from position \<open>n\<close>; \<open>emit\<close> is the
  state after such writes and \<open>k\<close> further draws. \<open>field\<close> reads a property of a value
  that is not \<^verbatim>\<open>null\<close>. \<open>materialized\<close> lists the requests of a whole successful run, in
  order: the character, the nine attributes of the first loop, the three lists, the three
  closing attributes, two requests per action, the ability.
\<close>

type_synonym 'n request = "string \<times> (string \<times> 'n jsval) list"

fun stored :: "'n host \<Rightarrow> nat \<Rightarrow> 'n request list \<Rightarrow> 'n obj list" where
  "stored h n [] = []"
| "stored h n (r # rs) = \<lparr>kind = fst r, oid = object_id h n, props = snd r\<rparr> # stored h (Suc n) rs"

definition emit :: "'n host \<Rightarrow> 'n request list \<Rightarrow> nat \<Rightarrow> 'n world \<Rightarrow> 'n world" where
  "emit h rs k s = s\<lparr>objs := objs s @ stored h (length (objs s)) rs, draws := draws s + k\<rparr>"

definition field :: "'n jsval \<Rightarrow> string \<Rightarrow> 'n jsval" where
  "field v k = (case get_prop v k of Inr x \<Rightarrow> x | Inl e \<Rightarrow> JUndefined)"

definition attribute_request :: "string \<Rightarrow> string \<Rightarrow> 'n jsval \<Rightarrow> 'n request" where
  "attribute_request cid n v =
     (''attribute'', [(''name'', JStr n), (''current'', v), (''characterid'', JStr cid)])"

definition character_request :: "'n jsval \<Rightarrow> string \<Rightarrow> 'n request" where
  "character_request n pid = (''character'', [(''name'', n), (''controlledby'', JStr pid)])"

definition ability_request :: "string \<Rightarrow> string \<Rightarrow> string \<Rightarrow> 'n request" where
  "ability_request cid b t =
     (''ability'',
      [(''name'', JStr ''Background & Personality''),
       (''description'', JStr (''Background: '' @ b @ [nl, nl] @ ''Personality Traits: '' @ t @ [nl, nl])),
       (''characterid'', JStr cid)])"

definition basic_names :: "string list" where
  "basic_names = [''race'', ''class'', ''level'', ''strength'', ''dexterity'',
                  ''constitution'', ''intelligence'', ''wisdom'', ''charisma'']"

definition list_requests ::
  "'n host \<Rightarrow> string \<Rightarrow> string \<Rightarrow> nat \<Rightarrow> 'n jsval list \<Rightarrow> 'n request list" where
  "list_requests h cid g r items =
     map (\<lambda>(i, item). attribute_request cid (''repeating_'' @ g @ ''_'' @ row_id h i @ ''_name'') item)
         (enumerate r items)"

definition scalar_requests :: "string \<Rightarrow> 'n jsval \<Rightarrow> string \<Rightarrow> 'n request list" where
  "scalar_requests cid d j =
     [attribute_request cid ''appearance'' (field d ''appearance''),
      attribute_request cid ''background'' (field d ''background''),
      attribute_request cid ''personality_traits'' (JStr j)]"

fun action_requests :: "'n host \<Rightarrow> string \<Rightarrow> nat \<Rightarrow> 'n jsval list \<Rightarrow> 'n request list" where
  "action_requests h cid r [] = []"
| "action_requests h cid r (a # as) =
     attribute_request cid (''repeating_npcaction_'' @ row_id h r @ ''_name'') (field a ''name'') #
     attribute_request cid (''repeating_npcaction_'' @ row_id h (Suc r) @ ''_description'')
       (field a ''description'') #
     action_requests h cid (Suc (Suc r)) as"

definition materialized ::
  "'n host \<Rightarrow> nat \<Rightarrow> nat \<Rightarrow> string \<Rightarrow> 'n jsval \<Rightarrow> 'n jsval list \<Rightarrow> 'n jsval list \<Rightarrow> 'n jsval list \<Rightarrow>
   'n jsval list \<Rightarrow> string \<Rightarrow> string \<Rightarrow> string \<Rightarrow> 'n request list" where
  "materialized h n r pid d eq sk la acts j b t =
     character_request (field d ''name'') pid #
     map (\<lambda>k. attribute_request (object_id h n) k (field d k)) basic_names @
     list_requests h (object_id h n) ''equipment'' r eq @
     list_requests h (object_id h n) ''skills'' (r + length eq) sk @
     list_requests h (object_id h n) ''languages'' (r + length eq + length sk) la @
     scalar_requests (object_id h n) d j @
     action_requests h (object_id h n) (r + length eq + length sk + length la) acts @
     [ability_request (object_id h n) b t]"

definition request_names :: "'n request list \<Rightarrow> string list" where
  "request_names rs =
     filter (\<lambda>n. startsWith n ''repeating_'')
       (map (\<lambda>r. case map_of (snd r) ''name'' of Some (JStr n) \<Rightarrow> n | _ \<Rightarrow> [])
            (filter (\<lambda>r. fst r = ''attribute'') rs))"

text \<open>
  An action is quiet when it leaves chat and log as they are. It reports once when it
  leaves the log as it is and either throws without touching the chat or returns after
  sending exactly one whisper.
\<close>

definition quiet :: "('n, 'a) exec \<Rightarrow> bool" where
  "quiet m = (\<forall>s. chat (snd (m s)) = chat s \<and> logs (snd (m s)) = logs s)"

definition reports_once :: "('n, 'a) exec \<Rightarrow> bool" where
  "reports_once m = (\<forall>s. logs (snd (m s)) = logs s \<and>
     (case fst (m s) of
        Inl e \<Rightarrow> chat (snd (m s)) = chat s
      | Inr a \<Rightarrow> (\<exists>c. whisper c \<and> chat (snd (m s)) = chat s @ [c])))"

section \<open>Sample inputs\<close>

text \<open>
  The command of the end-to-end example and the value its payload decodes to; the same
  descriptor with one more key, \<^verbatim>\<open>hasOwnProperty\<close>. A host that decodes the payloads used
  below, numbers its records and draws distinct random texts; one whose store refuses every
  write; one whose random generator always returns one half; one that also decodes the
  payload \<^verbatim>\<open>{"hasOwnProperty":true}\<close>.
\<close>

definition grak_text :: string where
  \<open>grak_text = ''{"name":"Grak","race":"Orc","class":"Fighter","level":3,"strength":16,"dexterity":12,"constitution":14,"intelligence":8,"wisdom":10,"charisma":9,"actions":[{"name":"Slam","description":"2d6 bludgeoning"}],"background":"Former gladiator","personality_traits":["Gruff","Loyal"],"equipment":["Axe","Shield"],"skills":["Athletics"],"languages":["Common","Orcish"],"appearance":"Scarred and massive"}''\<close>

definition slam :: "int jsval" where
  "slam = JObj [(''name'', JStr ''Slam''), (''description'', JStr ''2d6 bludgeoning'')]"

definition grak_pairs :: "(string \<times> int jsval) list" where
  "grak_pairs = [(''name'', JStr ''Grak''), (''race'', JStr ''Orc''), (''class'', JStr ''Fighter''),
     (''level'', JNum 3), (''strength'', JNum 16), (''dexterity'', JNum 12), (''constitution'', JNum 14),
     (''intelligence'', JNum 8), (''wisdom'', JNum 10), (''charisma'', JNum 9),
     (''actions'', JArr [JObj [(''name'', JStr ''Slam''), (''description'', JStr ''2d6 bludgeoning'')]]),
     (''background'', JStr ''Former gladiator''),
     (''personality_traits'', JArr [JStr ''Gruff'', JStr ''Loyal'']),
     (''equipment'', JArr [JStr ''Axe'', JStr ''Shield'']),
     (''skills'', JArr [JStr ''Athletics'']),
     (''languages'', JArr [JStr ''Common'', JStr ''Orcish'']),
     (''appearance'', JStr ''Scarred and massive'')]"

definition grak :: "int jsval" where
  "grak = JObj grak_pairs"

definition shadowed_grak :: "int jsval" where
  "shadowed_grak = JObj ((''hasOwnProperty'', JBool True) # grak_pairs)"

definition sample_host :: "int host" where
  "sample_host = \<lparr>
     json_parse = (\<lambda>t. if t = grak_text then Inr grak
                        else if t = ''null'' then Inr JNull
                        else if t = ''{}'' then Inr (JObj [])
                        else Inl ''Unexpected token''),
     number_text = (\<lambda>n. if n < 0 then ''-'' @ dec (nat (- n)) else dec (nat n)),
     random_text = (\<lambda>k. ''0.'' @ dec k @ ''k3j9x0q2ab''),
     type_error_text = (\<lambda>t. case t of
         NullRead k \<Rightarrow> ''Cannot read properties of null''
       | NotAFunction k \<Rightarrow> k @ '' is not a function''
       | NoPrimitive \<Rightarrow> ''Cannot convert object to primitive value''),
     object_id = (\<lambda>k. ''-N'' @ dec k),
     store_refuses = (\<lambda>os k ps. None)\<rparr>"

definition refusing_host :: "int host" where
  "refusing_host = sample_host\<lparr>store_refuses := (\<lambda>os k ps. Some ''store is full'')\<rparr>"


definition empty_world :: "int world" where
  "empty_world = \<lparr>objs = [], chat = [], logs = [], draws = 0\<rparr>"

definition grak_msg :: msg where
  "grak_msg = \<lparr>msg_type = ''api'', content = ''!create-npc '' @ grak_text, playerid = ''-Mplayer''\<rparr>"

definition null_msg :: msg where
  "null_msg = \<lparr>msg_type = ''api'', content = ''!create-npc null'', playerid = ''-Mplayer''\<rparr>"

definition empty_msg :: msg where
  "empty_msg = \<lparr>msg_type = ''api'', content = ''!create-npc {}'', playerid = ''-Mplayer''\<rparr>"

definition broken_msg :: msg where
  "broken_msg = \<lparr>msg_type = ''api'', content = ''!create-npc {name: Grak'', playerid = ''-Mplayer''\<rparr>"

definition chatter :: msg where
  "chatter = \<lparr>msg_type = ''general'', content = ''!create-npc {}'', playerid = ''-Mplayer''\<rparr>"

definition shadow_text :: string where
  \<open>shadow_text = ''{"hasOwnProperty":true}''\<close>

definition shadow_only :: "int jsval" where
  "shadow_only = JObj [(''hasOwnProperty'', JBool True)]"

definition shadow_host :: "int host" where
  "shadow_host = sample_host\<lparr>json_parse :=
     (\<lambda>t. if t = shadow_text then Inr shadow_only else json_parse sample_host t)\<rparr>"

definition shadow_msg :: msg where
  "shadow_msg = \<lparr>msg_type = ''api'', content = ''!create-npc '' @ shadow_text, playerid = ''-Mplayer''\<rparr>"

section \<open>Basic facts\<close>

subsection \<open>Sequencing\<close>

lemma bind_lift_Inr [simp]: "bind (lift (Inr a)) f = f a"
  by (rule ext) (simp add: bind_def lift_def)

lemma bind_lift_Inl [simp]: "bind (lift (Inl e)) f = throw e"
  by (rule ext) (simp add: bind_def lift_def throw_def)

lemma bind_Inr: "m s = (Inr a, s') \<Longrightarrow> bind m f s = f a s'"
  by (simp add: bind_def)

lemma bind_Inl: "m s = (Inl e, s') \<Longrightarrow> bind m f s = (Inl e, s')"
  by (simp add: bind_def)

lemma bind_apply: "bind m f s = (case m s of (Inl e, s') \<Rightarrow> (Inl e, s') | (Inr a, s') \<Rightarrow> f a s')"
  by (simp add: bind_def)

lemma lift_apply: "lift r s = (r, s)"
  by (simp add: lift_def)

lemma ret_apply: "ret a s = (Inr a, s)"
  by (simp add: ret_def)

lemma throw_apply: "throw e s = (Inl e, s)"
  by (simp add: throw_def)

lemmas exec_apply = bind_apply lift_apply ret_apply throw_apply

subsection \<open>Writes to the store and the loops\<close>

lemma stored_append: "stored h n (xs @ ys) = stored h n xs @ stored h (n + length xs) ys"
  by (induction xs arbitrary: n) auto

lemma length_stored [simp]: "length (stored h n xs) = length xs"
  by (induction xs arbitrary: n) auto

lemma emit_nothing [simp]: "emit h [] 0 s = s"
  by (simp add: emit_def)

lemma emit_emit [simp]: "emit h rs2 k2 (emit h rs1 k1 s) = emit h (rs1 @ rs2) (k1 + k2) s"
  by (simp add: emit_def stored_append add.assoc)

lemma emit_fields [simp]:
  "objs (emit h rs k s) = objs s @ stored h (length (objs s)) rs"
  "draws (emit h rs k s) = draws s + k"
  "chat (emit h rs k s) = chat s"
  "logs (emit h rs k s) = logs s"
  by (simp_all add: emit_def)

lemma createObj_accepts:
  "store_accepts h \<Longrightarrow>
   createObj h k ps s =
     (Inr \<lparr>kind = k, oid = object_id h (length (objs s)), props = ps\<rparr>, emit h [(k, ps)] 0 s)"
  by (simp add: createObj_def store_accepts_def Let_def emit_def)

lemma new_attribute_accepts:
  "store_accepts h \<Longrightarrow>
   new_attribute h c n v s = (Inr (), emit h [attribute_request (oid c) n v] 0 s)"
  by (simp add: new_attribute_def exec_apply createObj_accepts attribute_request_def)

lemma generateRowID_eq:
  "generateRowID h s = (Inr (row_id h (draws s)), emit h [] 1 s)"
  by (simp add: generateRowID_def row_id_def emit_def)

lemma for_each_new_attribute:
  assumes acc: "store_accepts h"
  shows "for_each (\<lambda>(n, v). new_attribute h c n v) xs s =
     (Inr (), emit h (map (\<lambda>(n, v). attribute_request (oid c) n v) xs) 0 s)"
proof (induction xs arbitrary: s)
  case Nil
  then show ?case by (simp add: ret_def)
next
  case (Cons x xs)
  obtain n v where x: "x = (n, v)" by (cases x)
  define s1 where "s1 = emit h [attribute_request (oid c) n v] 0 s"
  have step: "new_attribute h c n v s = (Inr (), s1)"
    unfolding s1_def by (rule new_attribute_accepts [OF acc])
  have "for_each (\<lambda>(n, v). new_attribute h c n v) (x # xs) s =
        for_each (\<lambda>(n, v). new_attribute h c n v) xs s1"
    unfolding x
    by (simp only: for_each.simps prod.case bind_Inr [of "new_attribute h c n v" s "()" s1, OF step])
  also have "\<dots> = (Inr (), emit h (map (\<lambda>(n, v). attribute_request (oid c) n v) xs) 0 s1)"
    by (rule Cons.IH)
  finally show ?case
    by (simp add: s1_def x)
qed

lemma list_loop:
  assumes acc: "store_accepts h"
  shows "for_each (\<lambda>item. bind (generateRowID h) (\<lambda>row. new_attribute h c (name row) item)) items s =
     (Inr (), emit h (map (\<lambda>(i, item). attribute_request (oid c) (name (row_id h i)) item)
                        (enumerate (draws s) items)) (length items) s)"
proof (induction items arbitrary: s)
  case Nil
  then show ?case by (simp add: ret_def)
next
  case (Cons x xs)
  let ?f = "\<lambda>item. bind (generateRowID h) (\<lambda>row. new_attribute h c (name row) item)"
  define s1 where "s1 = emit h [attribute_request (oid c) (name (row_id h (draws s))) x] 1 s"
  have step: "?f x s = (Inr (), s1)"
    unfolding s1_def by (simp add: exec_apply generateRowID_eq new_attribute_accepts [OF acc])
  have "for_each ?f (x # xs) s = for_each ?f xs s1"
    by (simp only: for_each.simps bind_Inr [of "?f x" s "()" s1, OF step])
  also have "\<dots> = (Inr (), emit h (map (\<lambda>(i, item). attribute_request (oid c) (name (row_id h i)) item)
                        (enumerate (draws s1) xs)) (length xs) s1)"
    by (rule Cons.IH)
  finally show ?case
    by (simp add: s1_def)
qed

lemma get_prop_defined:
  "v \<noteq> JNull \<Longrightarrow> v \<noteq> JUndefined \<Longrightarrow> get_prop v k = Inr (field v k)"
  by (cases v) (simp_all add: field_def)

lemma get_prop_obj: "get_prop (JObj kvs) k = Inr (field (JObj kvs) k)"
  by (simp add: field_def)

lemma length_action_requests [simp]: "length (action_requests h cid r as) = 2 * length as"
  by (induction as arbitrary: r) auto

lemma action_loop:
  assumes acc: "store_accepts h"
  shows "JNull \<notin> set acts \<Longrightarrow> JUndefined \<notin> set acts \<Longrightarrow>
     createActionsAbility h c (JArr acts) s =
     (Inr (), emit h (action_requests h (oid c) (draws s) acts) (2 * length acts) s)"
proof (induction acts arbitrary: s)
  case Nil
  then show ?case by (simp add: createActionsAbility_def ret_def)
next
  case (Cons a as)
  let ?f = "\<lambda>action.
       bind (generateRowID h) (\<lambda>row1.
       bind (lift (get_prop action ''name'')) (\<lambda>n.
       bind (new_attribute h c (''repeating_npcaction_'' @ row1 @ ''_name'') n) (\<lambda>_.
       bind (generateRowID h) (\<lambda>row2.
       bind (lift (get_prop action ''description'')) (\<lambda>ds.
       new_attribute h c (''repeating_npcaction_'' @ row2 @ ''_description'') ds)))))"
  define s1 where "s1 = emit h (action_requests h (oid c) (draws s) [a]) 2 s"
  from Cons.prems have a: "a \<noteq> JNull" "a \<noteq> JUndefined" by auto
  have step: "?f a s = (Inr (), s1)"
    unfolding s1_def
    by (simp add: exec_apply generateRowID_eq new_attribute_accepts [OF acc] get_prop_defined [OF a])
  have "createActionsAbility h c (JArr (a # as)) s = bind (?f a) (\<lambda>_. for_each ?f as) s"
    by (simp only: createActionsAbility_def call_forEach.simps for_each.simps)
  also have "\<dots> = for_each ?f as s1"
    by (rule bind_Inr [of "?f a" s "()" s1, OF step])
  also have "\<dots> = createActionsAbility h c (JArr as) s1"
    by (simp only: createActionsAbility_def call_forEach.simps)
  also have "\<dots> = (Inr (), emit h (action_requests h (oid c) (draws s1) as) (2 * length as) s1)"
    using Cons.prems by (intro Cons.IH) auto
  finally show ?case
    by (simp add: s1_def)
qed

lemma read_all_obj: "read_all (JObj kvs) ks = Inr (map (\<lambda>k. (k, field (JObj kvs) k)) ks)"
  by (induction ks) (simp_all add: field_def)

lemma addAttributes_ok:
  assumes acc: "store_accepts h"
    and eq: "field (JObj kvs) ''equipment'' = JArr eq"
    and sk: "field (JObj kvs) ''skills'' = JArr sk"
    and la: "field (JObj kvs) ''languages'' = JArr la"
    and tr: "field (JObj kvs) ''personality_traits'' = JArr tr"
    and j: "join_elems (number_text h) '', '' tr = Inr j"
  shows "addAttributesToCharacter h c (JObj kvs) s =
     (Inr (), emit h
         (map (\<lambda>k. attribute_request (oid c) k (field (JObj kvs) k)) basic_names @
          list_requests h (oid c) ''equipment'' (draws s) eq @
          list_requests h (oid c) ''skills'' (draws s + length eq) sk @
          list_requests h (oid c) ''languages'' (draws s + length eq + length sk) la @
          [attribute_request (oid c) ''appearance'' (field (JObj kvs) ''appearance''),
           attribute_request (oid c) ''background'' (field (JObj kvs) ''background''),
           attribute_request (oid c) ''personality_traits'' (JStr j)])
         (length eq + length sk + length la) s)"
  unfolding addAttributesToCharacter_def
  apply (simp only: read_all_obj bind_lift_Inr)
  apply (simp add: exec_apply for_each_new_attribute [OF acc] list_loop [OF acc]
      new_attribute_accepts [OF acc] get_prop_obj eq sk la tr j
      list_requests_def basic_names_def del: get_prop.simps)
  done

subsection \<open>The required-field check\<close>

lemma every_pure: "every (\<lambda>f. Inr (P f)) xs = Inr (list_all P xs)"
  by (induction xs) simp_all

lemma every_throws: "xs \<noteq> [] \<Longrightarrow> every (\<lambda>f. Inl e) xs = Inl e"
  by (cases xs) simp_all

lemma validate_absent:
  "validateNPCData JNull = Inl (TypeError (NullRead ''hasOwnProperty''))"
  "validateNPCData JUndefined = Inl (TypeError (NullRead ''hasOwnProperty''))"
  by (simp_all add: validateNPCData_def requiredFields_def)

lemma validate_shadowed:
  "''hasOwnProperty'' \<in> set (map fst kvs) \<Longrightarrow>
   validateNPCData (JObj kvs) = Inl (TypeError (NotAFunction ''hasOwnProperty''))"
  by (simp add: validateNPCData_def requiredFields_def)

lemma validate_plain:
  assumes "d \<noteq> JNull" "d \<noteq> JUndefined" "\<not> own_property d ''hasOwnProperty''"
  shows "validateNPCData d = Inr (list_all (own_property d) requiredFields)"
proof -
  have "call_hasOwnProperty d = (\<lambda>f. Inr (own_property d f))"
    using assms by (cases d) (auto simp del: own_property.simps(2,3) simp add: fun_eq_iff)
  then show ?thesis
    by (simp add: validateNPCData_def every_pure)
qed

subsection \<open>The guard, the decoder and the catch\<close>

lemma handleInput_no_throw: "fst (handleInput h m s) = Inr ()"
  by (simp add: handleInput_def exec_apply sendChat_def log_def split: prod.splits sum.splits)

lemma handleInput_ignored:
  "msg_type m \<noteq> ''api'' \<or> \<not> startsWith (content m) ''!create-npc'' \<Longrightarrow>
   handleInput h m s = (Inr (), s)"
  by (auto simp add: handleInput_def)

lemma handleInput_format_error:
  assumes "msg_type m = ''api''" and "startsWith (content m) ''!create-npc''"
    and "json_parse h (trim (replace_first ''!create-npc'' '''' (content m))) = Inl e"
  shows "handleInput h m s =
     (Inr (), s\<lparr>chat := chat s @ [(''NPC Creator'',
                   ''/w gm Error creating NPC: Invalid JSON format. Please check your input. Error: '' @ e)],
                logs := logs s @
                  [''NPC Creation Error: Invalid JSON format. Please check your input. Error: '' @ e]\<rparr>)"
  using assms
  by (simp add: handleInput_def try_block_def extractNPCData_def exec_apply sendChat_def log_def
      error_message_def)

lemma handleInput_invalid:
  assumes "msg_type m = ''api''" and "startsWith (content m) ''!create-npc''"
    and "extractNPCData h (content m) = Inr d"
    and "d \<noteq> JNull" "d \<noteq> JUndefined" "\<not> own_property d ''hasOwnProperty''"
    and "\<exists>f \<in> set requiredFields. \<not> own_property d f"
  shows "handleInput h m s = (Inr (), s\<lparr>chat := chat s @ [(''NPC Creator'', validation_error)]\<rparr>)"
proof -
  have "validateNPCData d = Inr False"
    using assms by (simp add: validate_plain list_all_iff)
  then show ?thesis
    using assms(1-3)
    by (simp add: handleInput_def try_block_def exec_apply sendChat_def validation_error_def)
qed

lemma handleInput_null:
  assumes "msg_type m = ''api''" and "content m = ''!create-npc null''"
    and "json_parse h ''null'' = Inr JNull"
  shows "handleInput h m s =
     (Inr (), s\<lparr>chat := chat s @ [(''NPC Creator'',
                   ''/w gm Error creating NPC: '' @ type_error_text h (NullRead ''hasOwnProperty''))],
                logs := logs s @
                  [''NPC Creation Error: '' @ type_error_text h (NullRead ''hasOwnProperty'')]\<rparr>)"
proof -
  have ex: "extractNPCData h (content m) = Inr JNull"
    using assms by (simp add: extractNPCData_def trim_def is_space_def)
  have st: "startsWith (content m) ''!create-npc''"
    using assms by (simp add: startsWith_def)
  show ?thesis
    using assms(1) st
    by (simp add: handleInput_def try_block_def ex validate_absent exec_apply
        sendChat_def log_def error_message_def)
qed

section \<open>Properties of the handler\<close>

subsection \<open>Messages that create nothing\<close>

lemma sample_grak_decodes: "extractNPCData sample_host (content grak_msg) = Inr grak"
  by (simp add: extractNPCData_def sample_host_def grak_msg_def grak_text_def trim_def is_space_def)

lemma sample_null_decodes: "json_parse sample_host ''null'' = Inr JNull"
  by (simp add: sample_host_def grak_text_def)

lemma sample_broken_payload:
  "json_parse sample_host (trim (replace_first ''!create-npc'' '''' (content broken_msg))) =
     Inl ''Unexpected token''"
  by (simp add: sample_host_def broken_msg_def grak_text_def trim_def is_space_def)

text \<open>
  C9. A message whose type is not \<^verbatim>\<open>api\<close>, or whose content does not begin with
  \<^verbatim>\<open>!create-npc\<close>, is ignored: the handler returns and the state (records, chat, log,
  random draws) is the one it started from.
\<close>

theorem unaddressed_message_ignored:
  "msg_type m \<noteq> ''api'' \<or> \<not> startsWith (content m) ''!create-npc'' \<Longrightarrow>
   handleInput h m s = (Inr (), s)"
  by (rule handleInput_ignored)

theorem unaddressed_message_ignored_witness:
  "msg_type chatter \<noteq> ''api'' \<and>
   handleInput sample_host chatter empty_world = (Inr (), empty_world)"
proof -
  have a: "msg_type chatter \<noteq> ''api''"
    by (simp add: chatter_def)
  then have b: "msg_type chatter \<noteq> ''api'' \<or> \<not> startsWith (content chatter) ''!create-npc''"
    by (rule disjI1)
  from a unaddressed_message_ignored [OF b, of sample_host empty_world] show ?thesis
    by (rule conjI)
qed

text \<open>
  C3. When the payload of a command is not valid JSON (the decoder fails with message
  \<open>e\<close>), the handler creates no record and sends exactly one chat message, a whisper to the
  GM whose text ends with the decoder's message \<open>e\<close>. (It also writes one log line.)
\<close>

theorem format_error_reported:
  assumes "msg_type m = ''api''" and "startsWith (content m) ''!create-npc''"
    and "json_parse h (trim (replace_first ''!create-npc'' '''' (content m))) = Inl e"
  shows "objs (snd (handleInput h m s)) = objs s \<and>
         chat (snd (handleInput h m s)) = chat s @ [(''NPC Creator'',
           ''/w gm Error creating NPC: Invalid JSON format. Please check your input. Error: '' @ e)]"
  by (simp add: handleInput_format_error [OF assms])

theorem format_error_reported_witness:
  "msg_type broken_msg = ''api'' \<and> startsWith (content broken_msg) ''!create-npc'' \<and>
   objs (snd (handleInput sample_host broken_msg empty_world)) = [] \<and>
   chat (snd (handleInput sample_host broken_msg empty_world)) =
     [(''NPC Creator'',
       ''/w gm Error creating NPC: Invalid JSON format. Please check your input. Error: Unexpected token'')]"
proof -
  have a: "msg_type broken_msg = ''api''" and b: "startsWith (content broken_msg) ''!create-npc''"
    by (simp_all add: broken_msg_def startsWith_def)
  from format_error_reported [OF a b sample_broken_payload, of empty_world] a b show ?thesis
    by (simp add: empty_world_def)
qed

text \<open>
  C10. The handler never hands an exception to the host: it always returns normally. In
  particular, for the command \<^verbatim>\<open>!create-npc null\<close>, whose payload decodes to \<^verbatim>\<open>null\<close>, the
  required-field check raises a \<^verbatim>\<open>TypeError\<close>, which is caught: no record is created, and
  exactly one whisper is sent, the generic creation error carrying the engine's message,
  which is not the validation message.
\<close>

theorem null_payload_caught:
  "fst (handleInput h m s) = Inr () \<and>
   (msg_type m = ''api'' \<and> content m = ''!create-npc null'' \<and> json_parse h ''null'' = Inr JNull \<longrightarrow>
      validateNPCData (JNull :: 'n jsval) = Inl (TypeError (NullRead ''hasOwnProperty'')) \<and>
      objs (snd (handleInput h m s)) = objs s \<and>
      chat (snd (handleInput h m s)) = chat s @ [(''NPC Creator'',
        ''/w gm Error creating NPC: '' @ type_error_text h (NullRead ''hasOwnProperty''))] \<and>
      ''/w gm Error creating NPC: '' @ type_error_text h (NullRead ''hasOwnProperty'') \<noteq> validation_error)"
  by (simp add: handleInput_no_throw handleInput_null validate_absent validation_error_def)

theorem null_payload_caught_witness:
  "msg_type null_msg = ''api'' \<and> content null_msg = ''!create-npc null'' \<and>
   json_parse sample_host ''null'' = Inr JNull \<and>
   fst (handleInput sample_host null_msg empty_world) = Inr () \<and>
   objs (snd (handleInput sample_host null_msg empty_world)) = [] \<and>
   chat (snd (handleInput sample_host null_msg empty_world)) =
     [(''NPC Creator'', ''/w gm Error creating NPC: Cannot read properties of null'')]"
proof -
  have a: "msg_type null_msg = ''api'' \<and> content null_msg = ''!create-npc null''"
    by (simp add: null_msg_def)
  have t: "type_error_text sample_host (NullRead ''hasOwnProperty'') = ''Cannot read properties of null''"
    by (simp add: sample_host_def)
  have w: "objs empty_world = []" "chat empty_world = []"
    by (simp_all add: empty_world_def)
  from null_payload_caught [of sample_host null_msg empty_world] a sample_null_decodes
  show ?thesis
    unfolding t w by auto
qed

subsection \<open>Chat and log\<close>

lemma quiet_ret: "quiet (ret a)"
  by (simp add: quiet_def ret_def)

lemma quiet_throw: "quiet (throw e)"
  by (simp add: quiet_def throw_def)

lemma quiet_lift: "quiet (lift r)"
  by (simp add: quiet_def lift_def)

lemma quiet_bind:
  assumes m: "quiet m" and f: "\<And>a. quiet (f a)"
  shows "quiet (bind m f)"
  unfolding quiet_def
proof
  fix s
  obtain r s1 where ms: "m s = (r, s1)" by (cases "m s")
  from m ms have s1: "chat s1 = chat s \<and> logs s1 = logs s"
    unfolding quiet_def by (metis snd_conv)
  show "chat (snd (bind m f s)) = chat s \<and> logs (snd (bind m f s)) = logs s"
  proof (cases r)
    case (Inl e)
    with ms s1 show ?thesis by (simp add: bind_def)
  next
    case (Inr a)
    from f [of a] have "chat (snd (f a s1)) = chat s1 \<and> logs (snd (f a s1)) = logs s1"
      unfolding quiet_def by blast
    with Inr ms s1 show ?thesis by (simp add: bind_def)
  qed
qed

lemma quiet_createObj: "quiet (createObj h k ps)"
  by (simp add: quiet_def createObj_def Let_def split: option.splits)

lemma quiet_generateRowID: "quiet (generateRowID h)"
  by (simp add: quiet_def generateRowID_def)

lemma quiet_new_attribute: "quiet (new_attribute h c n v)"
  unfolding new_attribute_def by (intro quiet_bind quiet_createObj quiet_ret)

lemma quiet_for_each: "(\<And>x. quiet (f x)) \<Longrightarrow> quiet (for_each f xs)"
  by (induction xs) (auto intro: quiet_ret quiet_bind)

lemma quiet_call_forEach: "(\<And>x. quiet (f x)) \<Longrightarrow> quiet (call_forEach v f)"
  by (cases v) (auto intro: quiet_for_each quiet_throw)

lemmas quiet_intros = quiet_bind quiet_lift quiet_ret quiet_throw quiet_createObj
  quiet_generateRowID quiet_new_attribute quiet_for_each quiet_call_forEach

lemma quiet_addAttributes: "quiet (addAttributesToCharacter h c d)"
  unfolding addAttributesToCharacter_def
  by (intro quiet_intros) (auto simp add: split_def intro!: quiet_intros)

lemma quiet_createActions: "quiet (createActionsAbility h c a)"
  unfolding createActionsAbility_def by (intro quiet_intros)

lemma quiet_createBackground: "quiet (createBackgroundAbility h c d)"
  unfolding createBackgroundAbility_def by (intro quiet_intros)

lemma reports_once_sendChat: "startsWith t ''/w gm '' \<Longrightarrow> reports_once (sendChat ''NPC Creator'' t)"
  by (simp add: reports_once_def sendChat_def whisper_def)

lemma reports_once_bind:
  assumes m: "quiet m" and f: "\<And>a. reports_once (f a)"
  shows "reports_once (bind m f)"
  unfolding reports_once_def
proof
  fix s
  obtain r s1 where ms: "m s = (r, s1)" by (cases "m s")
  from m ms have s1: "chat s1 = chat s" "logs s1 = logs s"
    unfolding quiet_def by (metis snd_conv)+
  show "logs (snd (bind m f s)) = logs s \<and>
     (case fst (bind m f s) of
        Inl e \<Rightarrow> chat (snd (bind m f s)) = chat s
      | Inr a \<Rightarrow> (\<exists>c. whisper c \<and> chat (snd (bind m f s)) = chat s @ [c]))"
  proof (cases r)
    case (Inl e)
    with ms s1 show ?thesis by (simp add: bind_def)
  next
    case (Inr a)
    have b: "bind m f s = f a s1"
      using Inr ms by (simp add: bind_def)
    from f [of a] show ?thesis
      unfolding reports_once_def b using s1 by metis
  qed
qed

lemma reports_once_try_block: "reports_once (try_block h m)"
  unfolding try_block_def
  by (intro reports_once_bind quiet_intros quiet_addAttributes quiet_createActions quiet_createBackground)
     (auto intro!: reports_once_bind quiet_intros quiet_addAttributes quiet_createActions
        quiet_createBackground reports_once_sendChat simp add: startsWith_def)

lemma handleInput_rejected:
  assumes "msg_type m = ''api''" and "startsWith (content m) ''!create-npc''"
    and "extractNPCData h (content m) = Inr d"
    and "validateNPCData d = Inr False"
  shows "handleInput h m s = (Inr (), s\<lparr>chat := chat s @ [(''NPC Creator'', validation_error)]\<rparr>)"
  using assms
  by (simp add: handleInput_def try_block_def exec_apply sendChat_def validation_error_def)

lemma try_block_effect:
  "logs (snd (try_block h m s)) = logs s \<and>
     (case fst (try_block h m s) of
        Inl e \<Rightarrow> chat (snd (try_block h m s)) = chat s
      | Inr a \<Rightarrow> (\<exists>c. whisper c \<and> chat (snd (try_block h m s)) = chat s @ [c]))"
  using reports_once_try_block [of h m] unfolding reports_once_def by (rule spec)

lemma handleInput_caught:
  assumes "msg_type m = ''api''" and "startsWith (content m) ''!create-npc''"
    and t: "try_block h m s = (Inl e, s1)"
  shows "handleInput h m s =
     (Inr (), s1\<lparr>chat := chat s @ [(''NPC Creator'', ''/w gm Error creating NPC: '' @ error_message h e)],
                 logs := logs s @ [''NPC Creation Error: '' @ error_message h e]\<rparr>)"
proof -
  from try_block_effect [of h m s] have "chat s1 = chat s" "logs s1 = logs s"
    unfolding t by simp_all
  with assms show ?thesis
    by (simp add: handleInput_def exec_apply sendChat_def log_def)
qed

lemma handleInput_whispers:
  "\<exists>cs. chat (snd (handleInput h m s)) = chat s @ cs \<and> list_all whisper cs"
proof (cases "msg_type m \<noteq> ''api'' \<or> \<not> startsWith (content m) ''!create-npc''")
  case True
  then have "handleInput h m s = (Inr (), s)" by (rule handleInput_ignored)
  then show ?thesis by simp
next
  case False
  then have g: "msg_type m = ''api''" "startsWith (content m) ''!create-npc''" by auto
  obtain r s1 where t: "try_block h m s = (r, s1)" by (cases "try_block h m s")
  show ?thesis
  proof (cases r)
    case (Inl e)
    have "whisper (''NPC Creator'', ''/w gm Error creating NPC: '' @ error_message h e)"
      by (simp add: whisper_def startsWith_def)
    with handleInput_caught [OF g t [unfolded Inl]] show ?thesis
      by simp
  next
    case (Inr u)
    from try_block_effect [of h m s]
    obtain c where "whisper c" "chat s1 = chat s @ [c]"
      unfolding t Inr by auto
    moreover have "handleInput h m s = (Inr u, s1)"
      using g t Inr by (simp add: handleInput_def)
    ultimately show ?thesis by simp
  qed
qed

text \<open>
  C5 (as the code has it). The handler always returns normally, and every chat message it
  sends is a whisper to the GM. Every exception raised inside the \<^verbatim>\<open>try\<close> block (a format
  error, a \<^verbatim>\<open>TypeError\<close>, a write the store refuses) is caught and becomes exactly one
  whisper carrying its message and one log line. A validation failure is not an exception:
  it produces one whisper, creates no record and writes no log line.
\<close>

theorem errors_reported_privately:
  "fst (handleInput h m s) = Inr () \<and>
   (\<exists>cs. chat (snd (handleInput h m s)) = chat s @ cs \<and> list_all whisper cs) \<and>
   (msg_type m = ''api'' \<and> startsWith (content m) ''!create-npc'' \<longrightarrow>
      (\<forall>e s1. try_block h m s = (Inl e, s1) \<longrightarrow>
         chat (snd (handleInput h m s)) =
           chat s @ [(''NPC Creator'', ''/w gm Error creating NPC: '' @ error_message h e)] \<and>
         logs (snd (handleInput h m s)) = logs s @ [''NPC Creation Error: '' @ error_message h e]) \<and>
      (\<forall>d. extractNPCData h (content m) = Inr d \<and> validateNPCData d = Inr False \<longrightarrow>
         objs (snd (handleInput h m s)) = objs s \<and>
         chat (snd (handleInput h m s)) = chat s @ [(''NPC Creator'', validation_error)] \<and>
         logs (snd (handleInput h m s)) = logs s))"
  by (simp add: handleInput_no_throw handleInput_whispers handleInput_caught handleInput_rejected)

lemma extract_refusing: "extractNPCData refusing_host c = extractNPCData sample_host c"
  by (simp add: extractNPCData_def refusing_host_def)

lemma validate_grak: "validateNPCData grak = Inr True"
  by (simp add: validateNPCData_def requiredFields_def grak_def grak_pairs_def)

lemma grak_name: "get_prop grak ''name'' = Inr (JStr ''Grak'')"
  by (simp add: grak_def grak_pairs_def)

lemma refused_write: "try_block refusing_host grak_msg empty_world = (Inl (Error ''store is full''), empty_world)"
proof -
  have e: "extractNPCData refusing_host (content grak_msg) = Inr grak"
    by (simp add: extract_refusing sample_grak_decodes)
  have c: "createObj refusing_host k ps s = (Inl (Error ''store is full''), s)" for k ps s
    by (simp add: createObj_def refusing_host_def)
  show ?thesis
    by (simp add: try_block_def e validate_grak grak_name exec_apply c)
qed

theorem errors_reported_privately_witness:
  "msg_type grak_msg = ''api'' \<and> startsWith (content grak_msg) ''!create-npc'' \<and>
   try_block refusing_host grak_msg empty_world = (Inl (Error ''store is full''), empty_world) \<and>
   fst (handleInput refusing_host grak_msg empty_world) = Inr () \<and>
   chat (snd (handleInput refusing_host grak_msg empty_world)) =
     [(''NPC Creator'', ''/w gm Error creating NPC: store is full'')] \<and>
   logs (snd (handleInput refusing_host grak_msg empty_world)) = [''NPC Creation Error: store is full'']"
proof -
  have a: "msg_type grak_msg = ''api''" and b: "startsWith (content grak_msg) ''!create-npc''"
    by (simp_all add: grak_msg_def startsWith_def)
  have w: "chat empty_world = []" "logs empty_world = []"
    by (simp_all add: empty_world_def)
  have m: "error_message refusing_host (Error ''store is full'') = ''store is full''"
    by (simp add: error_message_def)
  note r = errors_reported_privately [of refusing_host grak_msg empty_world]
  from r have p: "fst (handleInput refusing_host grak_msg empty_world) = Inr ()"
    by (rule conjunct1)
  from r a b refused_write
  have "chat (snd (handleInput refusing_host grak_msg empty_world)) =
          chat empty_world @ [(''NPC Creator'', ''/w gm Error creating NPC: '' @
             error_message refusing_host (Error ''store is full''))] \<and>
        logs (snd (handleInput refusing_host grak_msg empty_world)) =
          logs empty_world @ [''NPC Creation Error: '' @ error_message refusing_host (Error ''store is full'')]"
    by blast
  then have q: "chat (snd (handleInput refusing_host grak_msg empty_world)) =
      [(''NPC Creator'', ''/w gm Error creating NPC: store is full'')] \<and>
     logs (snd (handleInput refusing_host grak_msg empty_world)) = [''NPC Creation Error: store is full'']"
    unfolding m w by simp
  from a b refused_write p q show ?thesis
    by (intro conjI) (simp_all only:)
qed

lemma sample_empty_decodes: "extractNPCData sample_host (content empty_msg) = Inr (JObj [])"
  by (simp add: extractNPCData_def sample_host_def empty_msg_def grak_text_def trim_def is_space_def)

text \<open>
  Not every error is logged: for the command \<^verbatim>\<open>!create-npc {}\<close> the validation error is whispered
  but nothing is logged.
\<close>

theorem validation_failure_not_logged:
  "validateNPCData (JObj [] :: int jsval) = Inr False \<and>
   chat (snd (handleInput sample_host empty_msg empty_world)) = [(''NPC Creator'', validation_error)] \<and>
   logs (snd (handleInput sample_host empty_msg empty_world)) = []"
proof -
  have v: "validateNPCData (JObj [] :: int jsval) = Inr False"
    by (simp add: validateNPCData_def requiredFields_def)
  have a: "msg_type empty_msg = ''api''" and b: "startsWith (content empty_msg) ''!create-npc''"
    by (simp_all add: empty_msg_def startsWith_def)
  have w: "chat empty_world = []" "logs empty_world = []"
    by (simp_all add: empty_world_def)
  have "handleInput sample_host empty_msg empty_world =
     (Inr (), empty_world\<lparr>chat := chat empty_world @ [(''NPC Creator'', validation_error)]\<rparr>)"
    by (rule handleInput_rejected [OF a b sample_empty_decodes v])
  then show ?thesis
    by (simp add: v w)
qed

subsection \<open>A run that creates the character\<close>

lemma createBackground_ok:
  assumes acc: "store_accepts h"
    and b: "to_string (number_text h) (field (JObj kvs) ''background'') = Inr b"
    and t: "to_string (number_text h) (field (JObj kvs) ''personality_traits'') = Inr t"
  shows "createBackgroundAbility h c (JObj kvs) s = (Inr (), emit h [ability_request (oid c) b t] 0 s)"
  unfolding createBackgroundAbility_def
  by (simp add: get_prop_obj b t exec_apply createObj_accepts [OF acc] ability_request_def
      del: get_prop.simps)

lemma try_block_ok:
  assumes acc: "store_accepts h"
    and ex: "extractNPCData h (content m) = Inr (JObj kvs)"
    and v: "validateNPCData (JObj kvs) = Inr True"
    and eq: "field (JObj kvs) ''equipment'' = JArr eq"
    and sk: "field (JObj kvs) ''skills'' = JArr sk"
    and la: "field (JObj kvs) ''languages'' = JArr la"
    and ac: "field (JObj kvs) ''actions'' = JArr acts"
    and nn: "JNull \<notin> set acts" "JUndefined \<notin> set acts"
    and tr: "field (JObj kvs) ''personality_traits'' = JArr tr"
    and j: "join_elems (number_text h) '', '' tr = Inr j"
    and b: "to_string (number_text h) (field (JObj kvs) ''background'') = Inr b"
    and t: "to_string (number_text h) (JArr tr) = Inr t"
  shows "objs (snd (try_block h m s)) =
           objs s @ stored h (length (objs s))
             (materialized h (length (objs s)) (draws s) (playerid m) (JObj kvs) eq sk la acts j b t)"
    and "draws (snd (try_block h m s)) = draws s + length eq + length sk + length la + 2 * length acts"
proof -
  let ?c = "\<lparr>kind = ''character'', oid = object_id h (length (objs s)),
             props = [(''name'', field (JObj kvs) ''name''), (''controlledby'', JStr (playerid m))]\<rparr>"
  let ?R = "materialized h (length (objs s)) (draws s) (playerid m) (JObj kvs) eq sk la acts j b t"
  let ?k = "length eq + length sk + length la + 2 * length acts"
  let ?s3 = "emit h ?R ?k s"
  have t': "to_string (number_text h) (field (JObj kvs) ''personality_traits'') = Inr t"
    using t by (simp add: tr)
  have body: "try_block h m s =
      bind (lift (to_string (number_text h) (field (JObj kvs) ''name''))) (\<lambda>shown.
         sendChat ''NPC Creator'' (''/w gm NPC '' @ shown @ '' has been created!'')) ?s3"
    unfolding try_block_def
    apply (simp only: ex v bind_lift_Inr get_prop_obj if_False not_True_eq_False)
    apply (simp add: bind_apply [of "createObj h k ps" for k ps] bind_apply [of "addAttributesToCharacter h c d" for c d]
        bind_apply [of "createActionsAbility h c a" for c a]
        bind_apply [of "createBackgroundAbility h c d" for c d]
        createObj_accepts [OF acc] ac
        addAttributes_ok [OF acc eq sk la tr j]
        action_loop [OF acc nn]
        createBackground_ok [OF acc b t']
        materialized_def character_request_def scalar_requests_def add.assoc
        del: get_prop.simps)
    done
  show "objs (snd (try_block h m s)) = objs s @ stored h (length (objs s)) ?R"
    unfolding body by (simp add: exec_apply sendChat_def split: sum.splits)
  show "draws (snd (try_block h m s)) = draws s + length eq + length sk + length la + 2 * length acts"
    unfolding body by (simp add: exec_apply sendChat_def split: sum.splits)
qed

lemma handleInput_store:
  assumes "msg_type m = ''api''" and "startsWith (content m) ''!create-npc''"
  shows "objs (snd (handleInput h m s)) = objs (snd (try_block h m s))"
    and "draws (snd (handleInput h m s)) = draws (snd (try_block h m s))"
  using assms
  by (simp_all add: handleInput_def exec_apply sendChat_def log_def split: prod.splits sum.splits)

lemma join_elems_succeeds:
  "(\<exists>j. join_elems nt sep xs = Inr j) \<longleftrightarrow>
   (\<forall>x \<in> set xs. x = JNull \<or> x = JUndefined \<or> (\<exists>t. to_string nt x = Inr t))"
proof (induction xs)
  case Nil
  then show ?case by simp
next
  case (Cons x xs)
  show ?case
  proof (cases "x = JNull \<or> x = JUndefined")
    case True
    then show ?thesis
      using Cons.IH by (auto split: sum.splits)
  next
    case False
    then show ?thesis
      using Cons.IH by (cases "to_string nt x") (auto split: sum.splits)
  qed
qed

lemma join_elems_any_separator:
  "join_elems nt sep xs = Inr t \<Longrightarrow> \<exists>j. join_elems nt sep' xs = Inr j"
  using join_elems_succeeds [of nt sep xs] join_elems_succeeds [of nt sep' xs] by blast

subsection \<open>Counting the records\<close>

lemma count_stored:
  "length (filter (\<lambda>ob. Q (kind ob) (props ob)) (stored h n rs)) =
   length (filter (\<lambda>r. Q (fst r) (snd r)) rs)"
  by (induction rs arbitrary: n) auto

lemma count_all: "(\<And>x. x \<in> set xs \<Longrightarrow> P x) \<Longrightarrow> length (filter P xs) = length xs"
  by (induction xs) auto

lemma count_none: "(\<And>x. x \<in> set xs \<Longrightarrow> \<not> P x) \<Longrightarrow> length (filter P xs) = 0"
  by (induction xs) auto

lemma attribute_request_parts [simp]:
  "fst (attribute_request cid n v) = ''attribute''"
  "action_name (snd (attribute_request cid n v)) = startsWith n ''repeating_npcaction_''"
  by (simp_all add: attribute_request_def action_name_def)

lemma list_requests_plain:
  assumes "g = ''equipment'' \<or> g = ''skills'' \<or> g = ''languages''"
    and "r \<in> set (list_requests h cid g k items)"
  shows "fst r = ''attribute'' \<and> \<not> action_name (snd r)"
  using assms by (auto simp add: list_requests_def startsWith_def)

lemma action_requests_action:
  "r \<in> set (action_requests h cid k acts) \<Longrightarrow> fst r = ''attribute'' \<and> action_name (snd r)"
  by (induction acts arbitrary: k) (auto simp add: startsWith_def)

lemma length_list_requests [simp]: "length (list_requests h cid g k items) = length items"
  by (simp add: list_requests_def)

lemma count_materialized:
  "length (filter (\<lambda>r. fst r = ''character'') (materialized h n r pid d eq sk la acts j b t)) = 1"
  "length (filter (\<lambda>r. fst r = ''attribute'' \<and> \<not> action_name (snd r)) (materialized h n r pid d eq sk la acts j b t)) =
           12 + length eq + length sk + length la"
  "length (filter (\<lambda>r. fst r = ''attribute'' \<and> action_name (snd r)) (materialized h n r pid d eq sk la acts j b t)) = 2 * length acts"
  "length (filter (\<lambda>r. fst r = ''ability'') (materialized h n r pid d eq sk la acts j b t)) = 1"
  "length (materialized h n r pid d eq sk la acts j b t) = 14 + length eq + length sk + length la + 2 * length acts"
proof -
  have lp: "length (filter (\<lambda>r. fst r = ''attribute'' \<and> \<not> action_name (snd r))
               (list_requests h cid g k items)) = length items"
       "length (filter (\<lambda>r. fst r = ''attribute'' \<and> action_name (snd r))
               (list_requests h cid g k items)) = 0"
       "length (filter (\<lambda>r. fst r = ''character'') (list_requests h cid g k items)) = 0"
       "length (filter (\<lambda>r. fst r = ''ability'') (list_requests h cid g k items)) = 0"
    if "g = ''equipment'' \<or> g = ''skills'' \<or> g = ''languages''" for cid g k items
    using list_requests_plain [OF that, of _ h cid k items]
    by (simp_all add: count_all count_none)
  have ap: "length (filter (\<lambda>r. fst r = ''attribute'' \<and> \<not> action_name (snd r))
               (action_requests h cid k acts)) = 0"
       "length (filter (\<lambda>r. fst r = ''attribute'' \<and> action_name (snd r))
               (action_requests h cid k acts)) = 2 * length acts"
       "length (filter (\<lambda>r. fst r = ''character'') (action_requests h cid k acts)) = 0"
       "length (filter (\<lambda>r. fst r = ''ability'') (action_requests h cid k acts)) = 0"
    for cid k
    using action_requests_action [of _ h cid k acts]
    by (simp_all add: count_all count_none)
  show "length (filter (\<lambda>r. fst r = ''character'') (materialized h n r pid d eq sk la acts j b t)) = 1"
    by (simp add: materialized_def lp ap character_request_def basic_names_def
        scalar_requests_def ability_request_def)
  show "length (filter (\<lambda>r. fst r = ''attribute'' \<and> \<not> action_name (snd r)) (materialized h n r pid d eq sk la acts j b t)) =
           12 + length eq + length sk + length la"
    by (simp add: materialized_def lp ap character_request_def basic_names_def
        scalar_requests_def ability_request_def startsWith_def)
  show "length (filter (\<lambda>r. fst r = ''attribute'' \<and> action_name (snd r)) (materialized h n r pid d eq sk la acts j b t)) = 2 * length acts"
    by (simp add: materialized_def lp ap character_request_def basic_names_def
        scalar_requests_def ability_request_def startsWith_def)
  show "length (filter (\<lambda>r. fst r = ''ability'') (materialized h n r pid d eq sk la acts j b t)) = 1"
    by (simp add: materialized_def lp ap character_request_def basic_names_def
        scalar_requests_def ability_request_def)
  show "length (materialized h n r pid d eq sk la acts j b t) = 14 + length eq + length sk + length la + 2 * length acts"
    by (simp add: materialized_def basic_names_def scalar_requests_def)
qed

lemma get_prop_array:
  assumes "get_prop d k = Inr (JArr xs)"
  shows "\<exists>kvs. d = JObj kvs"
  using assms by (cases d) simp_all

lemma get_prop_field: "get_prop d k = Inr v \<Longrightarrow> field d k = v"
  by (simp add: field_def)

lemma handleInput_records:
  assumes api: "msg_type m = ''api''" and sw: "startsWith (content m) ''!create-npc''"
    and acc: "store_accepts h"
    and ex: "extractNPCData h (content m) = Inr d"
    and v: "validateNPCData d = Inr True"
    and eq: "get_prop d ''equipment'' = Inr (JArr eq)"
    and sk: "get_prop d ''skills'' = Inr (JArr sk)"
    and la: "get_prop d ''languages'' = Inr (JArr la)"
    and ac: "get_prop d ''actions'' = Inr (JArr acts)"
    and nn: "JNull \<notin> set acts" "JUndefined \<notin> set acts"
    and tr: "get_prop d ''personality_traits'' = Inr (JArr tr)"
    and t: "to_string (number_text h) (JArr tr) = Inr t"
    and bg: "get_prop d ''background'' = Inr bg"
    and b: "to_string (number_text h) bg = Inr b"
  shows "\<exists>j. join_elems (number_text h) '', '' tr = Inr j \<and>
           objs (snd (handleInput h m s)) =
             objs s @ stored h (length (objs s))
               (materialized h (length (objs s)) (draws s) (playerid m) d eq sk la acts j b t) \<and>
           draws (snd (handleInput h m s)) =
             draws s + length eq + length sk + length la + 2 * length acts"
proof -
  from get_prop_array [OF eq] obtain kvs where d: "d = JObj kvs" ..
  from t have "join_elems (number_text h) '','' tr = Inr t" by simp
  from join_elems_any_separator [OF this]
  obtain j where j: "join_elems (number_text h) '', '' tr = Inr j" ..
  note f = eq [THEN get_prop_field] sk [THEN get_prop_field] la [THEN get_prop_field]
    ac [THEN get_prop_field] tr [THEN get_prop_field]
  have b': "to_string (number_text h) (field (JObj kvs) ''background'') = Inr b"
    using bg b d by (simp add: get_prop_field)
  note run = try_block_ok [OF acc ex [unfolded d] v [unfolded d] f(1) [unfolded d] f(2) [unfolded d]
      f(3) [unfolded d] f(4) [unfolded d] nn f(5) [unfolded d] j b' t, of s]
  show ?thesis
    using j run by (simp add: handleInput_store [OF api sw] d)
qed

lemma handleInput_counts:
  assumes api: "msg_type m = ''api''" and sw: "startsWith (content m) ''!create-npc''"
    and acc: "store_accepts h"
    and ex: "extractNPCData h (content m) = Inr d"
    and v: "validateNPCData d = Inr True"
    and eq: "get_prop d ''equipment'' = Inr (JArr eq)"
    and sk: "get_prop d ''skills'' = Inr (JArr sk)"
    and la: "get_prop d ''languages'' = Inr (JArr la)"
    and ac: "get_prop d ''actions'' = Inr (JArr acts)"
    and nn: "JNull \<notin> set acts" "JUndefined \<notin> set acts"
    and tr: "get_prop d ''personality_traits'' = Inr (JArr tr)"
    and t: "to_string (number_text h) (JArr tr) = Inr t"
    and bg: "get_prop d ''background'' = Inr bg"
    and b: "to_string (number_text h) bg = Inr b"
  shows "\<exists>new. objs (snd (handleInput h m s)) = objs s @ new \<and>
           length (filter (\<lambda>ob. kind ob = ''character'') new) = 1 \<and>
           length (filter plain_attribute new) = 12 + length eq + length sk + length la \<and>
           length (filter action_attribute new) = 2 * length acts \<and>
           length (filter (\<lambda>ob. kind ob = ''ability'') new) = 1 \<and>
           length new = 14 + length eq + length sk + length la + 2 * length acts"
proof -
  from handleInput_records [OF assms, of s] obtain j where
    o: "objs (snd (handleInput h m s)) =
             objs s @ stored h (length (objs s))
               (materialized h (length (objs s)) (draws s) (playerid m) d eq sk la acts j b t)"
    by blast
  let ?R = "materialized h (length (objs s)) (draws s) (playerid m) d eq sk la acts j b t"
  let ?new = "stored h (length (objs s)) ?R"
  have c1: "length (filter (\<lambda>ob. kind ob = ''character'') ?new) = 1"
    using count_stored [of "\<lambda>k ps. k = ''character''" h "length (objs s)" ?R]
    by (simp add: count_materialized)
  have c2: "length (filter plain_attribute ?new) = 12 + length eq + length sk + length la"
    using count_stored [of "\<lambda>k ps. k = ''attribute'' \<and> \<not> action_name ps" h "length (objs s)" ?R]
    unfolding plain_attribute_def by (simp add: count_materialized)
  have c3: "length (filter action_attribute ?new) = 2 * length acts"
    using count_stored [of "\<lambda>k ps. k = ''attribute'' \<and> action_name ps" h "length (objs s)" ?R]
    unfolding action_attribute_def by (simp add: count_materialized)
  have c4: "length (filter (\<lambda>ob. kind ob = ''ability'') ?new) = 1"
    using count_stored [of "\<lambda>k ps. k = ''ability''" h "length (objs s)" ?R]
    by (simp add: count_materialized)
  have c5: "length ?new = 14 + length eq + length sk + length la + 2 * length acts"
    by (simp add: count_materialized)
  from o c1 c2 c3 c4 c5 show ?thesis by blast
qed

lemma sample_accepts: "store_accepts sample_host"
  by (simp add: store_accepts_def sample_host_def)

lemma grak_msg_addressed: "msg_type grak_msg = ''api''" "startsWith (content grak_msg) ''!create-npc''"
  by (simp_all add: grak_msg_def startsWith_def)

lemma grak_fields:
  "get_prop grak ''equipment'' = Inr (JArr [JStr ''Axe'', JStr ''Shield''])"
  "get_prop grak ''skills'' = Inr (JArr [JStr ''Athletics''])"
  "get_prop grak ''languages'' = Inr (JArr [JStr ''Common'', JStr ''Orcish''])"
  "get_prop grak ''actions'' = Inr (JArr [slam])"
  "get_prop grak ''personality_traits'' = Inr (JArr [JStr ''Gruff'', JStr ''Loyal''])"
  "get_prop grak ''background'' = Inr (JStr ''Former gladiator'')"
  by (simp_all add: grak_def grak_pairs_def slam_def)

lemma slam_defined: "JNull \<notin> set [slam]" "JUndefined \<notin> set [slam]"
  by (simp_all add: slam_def)

lemma grak_texts:
  "to_string nt (JArr [JStr ''Gruff'', JStr ''Loyal'']) = Inr ''Gruff,Loyal''"
  "to_string nt (JStr ''Former gladiator'') = Inr ''Former gladiator''"
  "join_elems nt '', '' [JStr ''Gruff'', JStr ''Loyal''] = Inr ''Gruff, Loyal''"
  by simp_all

text \<open>
  C1 (as the code has it). For a descriptor that passes validation, whose equipment, skills,
  languages, actions and personality traits are lists (of N, M, K, A and any number of
  items), whose actions are not \<^verbatim>\<open>null\<close> and whose background and traits convert to text,
  and a store that takes every write, one invocation adds to the store exactly 1 character
  record, 12 + N + M + K scalar and list attribute records (12 scalar fields: the nine of
  the first loop, then appearance, background and personality traits), 2 * A action
  attribute records and 1 ability record, and nothing else.
\<close>

theorem records_created:
  assumes "msg_type m = ''api''" and "startsWith (content m) ''!create-npc''"
    and "store_accepts h"
    and "extractNPCData h (content m) = Inr d"
    and "validateNPCData d = Inr True"
    and "get_prop d ''equipment'' = Inr (JArr eq)"
    and "get_prop d ''skills'' = Inr (JArr sk)"
    and "get_prop d ''languages'' = Inr (JArr la)"
    and "get_prop d ''actions'' = Inr (JArr acts)"
    and "JNull \<notin> set acts" and "JUndefined \<notin> set acts"
    and "get_prop d ''personality_traits'' = Inr (JArr tr)"
    and "to_string (number_text h) (JArr tr) = Inr t"
    and "get_prop d ''background'' = Inr bg"
    and "to_string (number_text h) bg = Inr b"
  shows "\<exists>new. objs (snd (handleInput h m s)) = objs s @ new \<and>
           length (filter (\<lambda>ob. kind ob = ''character'') new) = 1 \<and>
           length (filter plain_attribute new) = 12 + length eq + length sk + length la \<and>
           length (filter action_attribute new) = 2 * length acts \<and>
           length (filter (\<lambda>ob. kind ob = ''ability'') new) = 1 \<and>
           length new = 14 + length eq + length sk + length la + 2 * length acts"
  by (rule handleInput_counts [OF assms])

theorem records_created_witness:
  "validateNPCData grak = Inr True \<and>
   length (filter (\<lambda>ob. kind ob = ''character'') (objs (snd (handleInput sample_host grak_msg empty_world)))) = 1 \<and>
   length (filter plain_attribute (objs (snd (handleInput sample_host grak_msg empty_world)))) = 17 \<and>
   length (filter action_attribute (objs (snd (handleInput sample_host grak_msg empty_world)))) = 2 \<and>
   length (filter (\<lambda>ob. kind ob = ''ability'') (objs (snd (handleInput sample_host grak_msg empty_world)))) = 1 \<and>
   length (objs (snd (handleInput sample_host grak_msg empty_world))) = 21"
proof -
  have w: "objs empty_world = []"
    by (simp add: empty_world_def)
  from records_created [OF grak_msg_addressed sample_accepts sample_grak_decodes validate_grak
      grak_fields(1-4) slam_defined grak_fields(5) grak_texts(1) grak_fields(6) grak_texts(2),
      of empty_world]
  show ?thesis
    unfolding w by (auto simp add: validate_grak)
qed

theorem nine_scalar_fields_counterexample:
  "validateNPCData grak = Inr True \<and>
   length (filter plain_attribute (objs (snd (handleInput sample_host grak_msg empty_world)))) \<noteq>
     9 + length [JStr ''Axe'', JStr ''Shield'' :: int jsval] + length [JStr ''Athletics'' :: int jsval] +
       length [JStr ''Common'', JStr ''Orcish'' :: int jsval]"
proof -
  have w: "objs empty_world = []"
    by (simp add: empty_world_def)
  from handleInput_counts [OF grak_msg_addressed sample_accepts sample_grak_decodes validate_grak
      grak_fields(1-4) slam_defined grak_fields(5) grak_texts(1) grak_fields(6) grak_texts(2),
      of empty_world]
  show ?thesis
    unfolding w by (auto simp add: validate_grak)
qed

lemma handleInput_shadowed:
  assumes "msg_type m = ''api''" and "startsWith (content m) ''!create-npc''"
    and "extractNPCData h (content m) = Inr (JObj kvs)"
    and "''hasOwnProperty'' \<in> set (map fst kvs)"
  shows "handleInput h m s =
     (Inr (), s\<lparr>chat := chat s @ [(''NPC Creator'',
                   ''/w gm Error creating NPC: '' @ type_error_text h (NotAFunction ''hasOwnProperty''))],
                logs := logs s @
                  [''NPC Creation Error: '' @ type_error_text h (NotAFunction ''hasOwnProperty'')]\<rparr>)"
  using assms(1-3)
  by (simp add: handleInput_def try_block_def validate_shadowed [OF assms(4)] exec_apply
      sendChat_def log_def error_message_def)

lemma shadow_decodes: "extractNPCData shadow_host (content shadow_msg) = Inr shadow_only"
  by (simp add: extractNPCData_def shadow_host_def shadow_msg_def shadow_text_def trim_def is_space_def)

text \<open>
  C2, evaluated where the code departs from it: the command
  \<^verbatim>\<open>!create-npc {"hasOwnProperty":true}\<close>. The descriptor is an object that lacks every
  required field. No record is created and exactly one whisper is sent, but it is the
  generic creation error carrying the \<^verbatim>\<open>TypeError\<close> of the field check, not the validation
  error, and a log line is written.
\<close>

theorem shadowed_descriptor_not_validated:
  "extractNPCData shadow_host (content shadow_msg) = Inr shadow_only \<and>
   \<not> own_property shadow_only ''name'' \<and>
   objs (snd (handleInput shadow_host shadow_msg empty_world)) = [] \<and>
   chat (snd (handleInput shadow_host shadow_msg empty_world)) =
     [(''NPC Creator'', ''/w gm Error creating NPC: hasOwnProperty is not a function'')] \<and>
   logs (snd (handleInput shadow_host shadow_msg empty_world)) =
     [''NPC Creation Error: hasOwnProperty is not a function''] \<and>
   ''/w gm Error creating NPC: hasOwnProperty is not a function'' \<noteq> validation_error"
proof -
  have a: "msg_type shadow_msg = ''api''" "startsWith (content shadow_msg) ''!create-npc''"
    by (simp_all add: shadow_msg_def startsWith_def)
  have k: "''hasOwnProperty'' \<in> set (map fst [(''hasOwnProperty'', JBool True :: int jsval)])"
    by simp
  have t: "type_error_text shadow_host (NotAFunction ''hasOwnProperty'') = ''hasOwnProperty is not a function''"
    by (simp add: shadow_host_def sample_host_def)
  have w: "objs empty_world = []" "chat empty_world = []" "logs empty_world = []"
    by (simp_all add: empty_world_def)
  have "handleInput shadow_host shadow_msg empty_world =
     (Inr (), empty_world\<lparr>chat := chat empty_world @ [(''NPC Creator'',
                   ''/w gm Error creating NPC: '' @ type_error_text shadow_host (NotAFunction ''hasOwnProperty''))],
                logs := logs empty_world @
                  [''NPC Creation Error: '' @ type_error_text shadow_host (NotAFunction ''hasOwnProperty'')]\<rparr>)"
    by (rule handleInput_shadowed [OF a shadow_decodes [unfolded shadow_only_def] k])
  then show ?thesis
    by (simp add: shadow_decodes t w validation_error_def) (simp add: shadow_only_def)
qed

theorem shadowed_descriptor_not_validated_witness:
  "chat (snd (handleInput shadow_host shadow_msg empty_world)) \<noteq> [(''NPC Creator'', validation_error)]"
  using shadowed_descriptor_not_validated by simp

text \<open>
  C6, evaluated where the code departs from it: a descriptor that has every required field
  and, besides, a property of its own named \<^verbatim>\<open>hasOwnProperty\<close>. Every required field is an
  own property, yet the check does not pass: it throws a \<^verbatim>\<open>TypeError\<close>.
\<close>

theorem shadowed_method_breaks_validation:
  "list_all (own_property shadowed_grak) requiredFields \<and>
   validateNPCData shadowed_grak = Inl (TypeError (NotAFunction ''hasOwnProperty''))"
  by (simp add: shadowed_grak_def grak_pairs_def requiredFields_def validateNPCData_def)

subsection \<open>The ability record\<close>

lemma props_of_kind_stored:
  "map props (filter (\<lambda>ob. kind ob = k) (stored h n rs)) = map snd (filter (\<lambda>r. fst r = k) rs)"
  by (induction rs arbitrary: n) auto

lemma list_requests_attribute:
  "r \<in> set (list_requests h cid g k items) \<Longrightarrow> fst r = ''attribute''"
  by (auto simp add: list_requests_def)

lemma no_ability_among_lists [simp]:
  "filter (\<lambda>r. fst r = ''ability'') (list_requests h cid g k items) = []"
  by (auto simp add: filter_empty_conv dest: list_requests_attribute)

lemma no_ability_among_actions [simp]:
  "filter (\<lambda>r. fst r = ''ability'') (action_requests h cid k acts) = []"
  by (auto simp add: filter_empty_conv dest: action_requests_action)

lemma ability_of_materialized:
  "filter (\<lambda>r. fst r = ''ability'') (materialized h n r pid d eq sk la acts j b t) =
     [ability_request (object_id h n) b t]"
  by (simp add: materialized_def character_request_def basic_names_def scalar_requests_def
      ability_request_def)

lemma handleInput_ability:
  assumes "msg_type m = ''api''" and "startsWith (content m) ''!create-npc''"
    and "store_accepts h"
    and "extractNPCData h (content m) = Inr d"
    and "validateNPCData d = Inr True"
    and "get_prop d ''equipment'' = Inr (JArr eq)"
    and "get_prop d ''skills'' = Inr (JArr sk)"
    and "get_prop d ''languages'' = Inr (JArr la)"
    and "get_prop d ''actions'' = Inr (JArr acts)"
    and "JNull \<notin> set acts" and "JUndefined \<notin> set acts"
    and "get_prop d ''personality_traits'' = Inr (JArr tr)"
    and "to_string (number_text h) (JArr tr) = Inr t"
    and "get_prop d ''background'' = Inr bg"
    and "to_string (number_text h) bg = Inr b"
  shows "\<exists>new. objs (snd (handleInput h m s)) = objs s @ new \<and>
           kind (hd new) = ''character'' \<and> oid (hd new) = object_id h (length (objs s)) \<and>
           map props (filter (\<lambda>ob. kind ob = ''ability'') new) =
             [[(''name'', JStr ''Background & Personality''),
               (''description'',
                  JStr (''Background: '' @ b @ [nl, nl] @ ''Personality Traits: '' @ t @ [nl, nl])),
               (''characterid'', JStr (object_id h (length (objs s))))]]"
proof -
  from handleInput_records [OF assms, of s] obtain j where
    o: "objs (snd (handleInput h m s)) =
             objs s @ stored h (length (objs s))
               (materialized h (length (objs s)) (draws s) (playerid m) d eq sk la acts j b t)"
    by blast
  have c: "kind (hd (stored h n (materialized h n r pid d eq sk la acts j b t))) = ''character'' \<and>
           oid (hd (stored h n (materialized h n r pid d eq sk la acts j b t))) = object_id h n"
    for n r pid
    by (simp add: materialized_def character_request_def)
  show ?thesis
    by (rule exI, rule conjI, rule o)
       (simp add: c props_of_kind_stored ability_of_materialized ability_request_def)
qed

text \<open>
  C7. For a valid descriptor whose background is \<^verbatim>\<open>Former gladiator\<close> and whose personality
  traits are \<^verbatim>\<open>["Gruff","Loyal"]\<close> (the other list fields being lists, the actions not
  \<^verbatim>\<open>null\<close>, the store taking every write), the handler creates exactly one ability record.
  It is named \<^verbatim>\<open>Background & Personality\<close>, belongs to the new character, and its text is
  the background paragraph followed by the traits paragraph, each closed by two newlines:
  \<^verbatim>\<open>Background: Former gladiator\n\nPersonality Traits: Gruff,Loyal\n\n\<close>.
\<close>

theorem background_note_text:
  assumes "msg_type m = ''api''" and "startsWith (content m) ''!create-npc''"
    and "store_accepts h"
    and "extractNPCData h (content m) = Inr d"
    and "validateNPCData d = Inr True"
    and "get_prop d ''equipment'' = Inr (JArr eq)"
    and "get_prop d ''skills'' = Inr (JArr sk)"
    and "get_prop d ''languages'' = Inr (JArr la)"
    and "get_prop d ''actions'' = Inr (JArr acts)"
    and "JNull \<notin> set acts" and "JUndefined \<notin> set acts"
    and "get_prop d ''personality_traits'' = Inr (JArr [JStr ''Gruff'', JStr ''Loyal''])"
    and "get_prop d ''background'' = Inr (JStr ''Former gladiator'')"
  shows "\<exists>new. objs (snd (handleInput h m s)) = objs s @ new \<and>
           kind (hd new) = ''character'' \<and> oid (hd new) = object_id h (length (objs s)) \<and>
           map props (filter (\<lambda>ob. kind ob = ''ability'') new) =
             [[(''name'', JStr ''Background & Personality''),
               (''description'',
                  JStr (''Background: Former gladiator'' @ [nl, nl] @
                        ''Personality Traits: Gruff,Loyal'' @ [nl, nl])),
               (''characterid'', JStr (object_id h (length (objs s))))]]"
  using handleInput_ability [OF assms(1-12) grak_texts(1) assms(13) grak_texts(2), of s]
  by simp

theorem background_note_text_witness:
  "validateNPCData grak = Inr True \<and>
   map props (filter (\<lambda>ob. kind ob = ''ability'')
       (objs (snd (handleInput sample_host grak_msg empty_world)))) =
     [[(''name'', JStr ''Background & Personality''),
       (''description'',
          JStr (''Background: Former gladiator'' @ [nl, nl] @
                ''Personality Traits: Gruff,Loyal'' @ [nl, nl])),
       (''characterid'', JStr (object_id sample_host 0))]]"
proof -
  have w: "objs empty_world = []"
    by (simp add: empty_world_def)
  from background_note_text [OF grak_msg_addressed sample_accepts sample_grak_decodes validate_grak
      grak_fields(1-4) slam_defined grak_fields(5) grak_fields(6), of empty_world]
  show ?thesis
    unfolding w by (auto simp add: validate_grak)
qed

subsection \<open>Row discriminators\<close>

lemma repeating_names_stored: "repeating_names (stored h n rs) = request_names rs"
proof -
  have "map name_of (filter (\<lambda>ob. kind ob = ''attribute'') (stored h n rs)) =
        map (\<lambda>r. case map_of (snd r) ''name'' of Some (JStr n) \<Rightarrow> n | _ \<Rightarrow> [])
            (filter (\<lambda>r. fst r = ''attribute'') rs)"
    by (induction rs arbitrary: n) (auto simp add: name_of_def)
  then show ?thesis
    by (simp add: repeating_names_def request_names_def)
qed

lemma request_names_append [simp]: "request_names (xs @ ys) = request_names xs @ request_names ys"
  by (simp add: request_names_def)

lemma request_names_Nil [simp]: "request_names [] = []"
  by (simp add: request_names_def)

lemma request_names_attribute:
  "request_names (attribute_request cid n v # rs) =
     (if startsWith n ''repeating_'' then n # request_names rs else request_names rs)"
  by (simp add: request_names_def attribute_request_def)

lemma request_names_other:
  "fst r \<noteq> ''attribute'' \<Longrightarrow> request_names (r # rs) = request_names rs"
  by (simp add: request_names_def)

lemma rows_0 [simp]: "rows h k 0 = []"
  by (simp add: rows_def)

lemma rows_Suc: "rows h k (Suc n) = row_id h k # rows h (Suc k) n"
proof -
  have "[k..<k + Suc n] = k # [Suc k..<Suc k + n]"
    by (subst upt_rec) simp
  then show ?thesis
    by (simp only: rows_def list.map)
qed

lemma length_rows [simp]: "length (rows h k n) = n"
  by (simp add: rows_def)


lemma request_names_lists:
  "request_names (list_requests h cid g k items) = group_names g (rows h k (length items))"
proof (induction items arbitrary: k)
  case Nil
  then show ?case by (simp add: list_requests_def group_names_def)
next
  case (Cons x xs)
  have "list_requests h cid g k (x # xs) =
          attribute_request cid (''repeating_'' @ g @ ''_'' @ row_id h k @ ''_name'') x #
          list_requests h cid g (Suc k) xs"
    by (simp add: list_requests_def)
  then show ?case
    by (simp add: request_names_attribute Cons.IH group_names_def startsWith_def rows_Suc)
qed

lemma request_names_actions:
  "request_names (action_requests h cid k acts) = pair_names (rows h k (2 * length acts))"
proof (induction acts arbitrary: k)
  case Nil
  then show ?case by simp
next
  case (Cons a as)
  have u: "rows h k (2 * length (a # as)) = row_id h k # row_id h (Suc k) # rows h (Suc (Suc k)) (2 * length as)"
    by (simp add: rows_Suc)
  show ?case
    unfolding u by (simp add: request_names_attribute Cons.IH startsWith_def)
qed

lemma request_names_materialized:
  "request_names (materialized h n r pid d eq sk la acts j b t) =
     group_names ''equipment'' (rows h r (length eq)) @
     group_names ''skills'' (rows h (r + length eq) (length sk)) @
     group_names ''languages'' (rows h (r + length eq + length sk) (length la)) @
     pair_names (rows h (r + length eq + length sk + length la) (2 * length acts))"
  by (simp add: materialized_def character_request_def basic_names_def scalar_requests_def
      ability_request_def request_names_other request_names_attribute request_names_lists
      request_names_actions startsWith_def)

lemma handleInput_names:
  assumes "msg_type m = ''api''" and "startsWith (content m) ''!create-npc''"
    and "store_accepts h"
    and "extractNPCData h (content m) = Inr d"
    and "validateNPCData d = Inr True"
    and "get_prop d ''equipment'' = Inr (JArr eq)"
    and "get_prop d ''skills'' = Inr (JArr sk)"
    and "get_prop d ''languages'' = Inr (JArr la)"
    and "get_prop d ''actions'' = Inr (JArr acts)"
    and "JNull \<notin> set acts" and "JUndefined \<notin> set acts"
    and "get_prop d ''personality_traits'' = Inr (JArr tr)"
    and "to_string (number_text h) (JArr tr) = Inr t"
    and "get_prop d ''background'' = Inr bg"
    and "to_string (number_text h) bg = Inr b"
  shows "\<exists>new. objs (snd (handleInput h m s)) = objs s @ new \<and>
     repeating_names new =
       group_names ''equipment'' (rows h (draws s) (length eq)) @
       group_names ''skills'' (rows h (draws s + length eq) (length sk)) @
       group_names ''languages'' (rows h (draws s + length eq + length sk) (length la)) @
       pair_names (rows h (draws s + length eq + length sk + length la) (2 * length acts))"
proof -
  from handleInput_records [OF assms, of s] obtain j where
    o: "objs (snd (handleInput h m s)) =
             objs s @ stored h (length (objs s))
               (materialized h (length (objs s)) (draws s) (playerid m) d eq sk la acts j b t)"
    by blast
  show ?thesis
    by (rule exI, rule conjI, rule o)
       (simp only: repeating_names_stored request_names_materialized)
qed










lemma length_evens [simp]: "length (evens xs) = length xs div 2"
  by (induction xs rule: evens.induct) simp_all

lemma length_odds [simp]: "length (odds xs) = length xs div 2"
  by (induction xs rule: odds.induct) simp_all







lemma grak_names:
  assumes "store_accepts h" and "extractNPCData h (content grak_msg) = Inr grak"
  shows "repeating_names (objs (snd (handleInput h grak_msg empty_world))) =
       group_names ''equipment'' (rows h 0 2) @ group_names ''skills'' (rows h 2 1) @
       group_names ''languages'' (rows h 3 2) @ pair_names (rows h 5 2)"
proof -
  have w: "objs empty_world = []" "draws empty_world = 0"
    by (simp_all add: empty_world_def)
  from handleInput_names [OF grak_msg_addressed assms validate_grak
      grak_fields(1-4) slam_defined grak_fields(5) grak_texts(1) grak_fields(6) grak_texts(2),
      of empty_world]
  show ?thesis
    unfolding w by (simp add: eval_nat_numeral)
qed


text \<open>
  C4, evaluated where the code departs from it: for the one action of the example, with a
  generator whose draws all differ, the name record and the description record carry two
  different discriminators (the sixth and the seventh draw), so they are not one row.
\<close>

theorem action_rows_not_shared:
  "rows sample_host 5 2 = [''5k3j9x0q'', ''6k3j9x0q''] \<and>
   filter (\<lambda>n. startsWith n ''repeating_npcaction_'')
     (repeating_names (objs (snd (handleInput sample_host grak_msg empty_world)))) =
     [''repeating_npcaction_5k3j9x0q_name'', ''repeating_npcaction_6k3j9x0q_description'']"
proof -
  have r: "rows sample_host 0 2 = [''0k3j9x0q'', ''1k3j9x0q'']"
    "rows sample_host 2 1 = [''2k3j9x0q'']"
    "rows sample_host 3 2 = [''3k3j9x0q'', ''4k3j9x0q'']"
    "rows sample_host 5 2 = [''5k3j9x0q'', ''6k3j9x0q'']"
    by (simp_all add: rows_def row_id_def sample_host_def substring_def dec.simps upt_rec)
  show ?thesis
    by (simp add: grak_names [OF sample_accepts sample_grak_decodes] r group_names_def startsWith_def)
qed

theorem action_rows_not_shared_witness:
  "\<not> (\<exists>row. filter (\<lambda>n. startsWith n ''repeating_npcaction_'')
              (repeating_names (objs (snd (handleInput sample_host grak_msg empty_world)))) =
            [''repeating_npcaction_'' @ row @ ''_name'', ''repeating_npcaction_'' @ row @ ''_description''])"
  using action_rows_not_shared by auto

end
